theory Spec2Isabelle
  imports
    Complex_Main
    "HOL-Library.AList"
    "HOL-Library.Char_ord"
    "HOL-Library.List_Lexorder"
    "HOL-Library.Multiset"
begin

section \<open>CO2 charts: the dataset reader and the series derivation of main.py\<close>

text \<open>
  The program reads two CSV sources into nested dictionaries
  (country \<open>\<rightarrow>\<close> year \<open>\<rightarrow>\<close> optional number) and derives four line charts from them.
  The embedding keeps the names of \<^verbatim>\<open>main.py\<close>.

  \<^item> A Python \<^verbatim>\<open>dict\<close> is an association list with distinct keys, kept in insertion
    order: \<open>AList.update\<close> overwrites the value of an existing key in place and appends
    a new key at the end, as \<^verbatim>\<open>d[k] = v\<close> does; \<open>map_of\<close> is the lookup and
    \<open>map fst\<close> is \<^verbatim>\<open>d.keys()\<close>.
  \<^item> \<^verbatim>\<open>None\<close> in a cell value is \<open>None\<close> of an \<open>option\<close>.
  \<^item> An exception that the source does not catch is a value \<open>Inl e\<close> of the result;
    a function that can raise returns \<open>py_error + \<dots>\<close>, and the first exception ends a
    loop.
  \<^item> The built-in conversions \<^verbatim>\<open>int(s)\<close> and \<^verbatim>\<open>float(s)\<close> of a string are parameters
    \<open>py_int\<close> and \<open>py_float\<close> of the readers: they return \<open>None\<close> exactly where the
    built-in raises \<^verbatim>\<open>ValueError\<close>, the exception that the readers catch. Applied to
    \<^verbatim>\<open>None\<close> instead of a string, \<^verbatim>\<open>int\<close> raises \<^verbatim>\<open>TypeError\<close>, which they do not
    catch.
  \<^item> The number type of the emissions is a type parameter. The first and second
    differences only need a zero and a subtraction on it, so the theorems about them hold
    for whatever arithmetic the numbers have. The product \<^verbatim>\<open>emissions * population\<close> of
    a float and an integer is a parameter \<open>py_mul\<close> of the absolute chart, with the
    result \<open>Inl OverflowError\<close> where Python cannot convert the integer to a float.
  \<^item> A row is what \<^verbatim>\<open>csv.DictReader\<close> yields for a line of a source that has the three
    columns in its header, the country first: the country cell is a string, and each of
    the other two cells is a string, or \<^verbatim>\<open>None\<close> when the line is too short to
    have it.
\<close>

subsection \<open>Dictionaries and exceptions\<close>

type_synonym ('k, 'v) dict = "('k \<times> 'v) list"

datatype py_error = KeyError | TypeError | AttributeError | OverflowError

text \<open>\<^verbatim>\<open>d[k]\<close>: raises \<^verbatim>\<open>KeyError\<close> on a missing key.\<close>

definition getitem :: "('k, 'v) dict \<Rightarrow> 'k \<Rightarrow> py_error + 'v" where
  "getitem d k = (case map_of d k of None \<Rightarrow> Inl KeyError | Some v \<Rightarrow> Inr v)"

text \<open>\<^verbatim>\<open>d.get(k)\<close>: \<^verbatim>\<open>None\<close> on a missing key, the stored value (which may itself be
  \<^verbatim>\<open>None\<close>) otherwise.\<close>

definition dict_get :: "('k, 'v option) dict \<Rightarrow> 'k \<Rightarrow> 'v option" where
  "dict_get d k = (case map_of d k of None \<Rightarrow> None | Some v \<Rightarrow> v)"

text \<open>A list comprehension whose element expression may raise: the first exception
  ends it.\<close>

fun traverse :: "('a \<Rightarrow> py_error + 'b) \<Rightarrow> 'a list \<Rightarrow> py_error + 'b list" where
  "traverse f [] = Inr []"
| "traverse f (x # xs) =
     (case f x of
        Inl e \<Rightarrow> Inl e
      | Inr y \<Rightarrow> (case traverse f xs of Inl e \<Rightarrow> Inl e | Inr ys \<Rightarrow> Inr (y # ys)))"

text \<open>A \<^verbatim>\<open>for row in reader\<close> loop that updates a dictionary: the body is run on the
  rows in order, and an exception of the body ends the loop and the function.\<close>

fun for_rows :: "('t \<Rightarrow> 'r \<Rightarrow> py_error + 't) \<Rightarrow> 't \<Rightarrow> 'r list \<Rightarrow> py_error + 't" where
  "for_rows body t [] = Inr t"
| "for_rows body t (r # rs) =
     (case body t r of Inl e \<Rightarrow> Inl e | Inr t' \<Rightarrow> for_rows body t' rs)"

subsection \<open>Rows and cell parsing\<close>

text \<open>The cells \<^verbatim>\<open>row["country"]\<close>, \<^verbatim>\<open>row["year"]\<close>, \<^verbatim>\<open>row["population"]\<close> of a row of
  the population source, and \<^verbatim>\<open>row["Entity"]\<close>, \<^verbatim>\<open>row["Year"]\<close>,
  \<^verbatim>\<open>row["Annual CO2 emissions (per capita)"]\<close> of a row of the emissions source. A cell
  of a column that the line does not reach is \<open>None\<close>.\<close>

record energy_row =
  country :: string
  year :: "string option"
  population :: "string option"

record co2_row =
  Entity :: string
  Year :: "string option"
  Annual_CO2 :: "string option"

text \<open>\<^verbatim>\<open>str.isspace\<close> on the ASCII range and \<^verbatim>\<open>str.strip()\<close>.\<close>

definition isspace :: "char \<Rightarrow> bool" where
  "isspace c = (let n = (of_char c :: nat) in (9 \<le> n \<and> n \<le> 13) \<or> (28 \<le> n \<and> n \<le> 32))"

definition strip :: "string \<Rightarrow> string" where
  "strip s = rev (dropWhile isspace (rev (dropWhile isspace s)))"

text \<open>\<^verbatim>\<open>_parse_int\<close> and \<^verbatim>\<open>_parse_float\<close>: \<^verbatim>\<open>value.strip()\<close> comes first and is outside
  the \<^verbatim>\<open>try\<close>, so on \<^verbatim>\<open>None\<close> it raises \<^verbatim>\<open>AttributeError\<close>; on a string, an empty
  result of the stripping is \<^verbatim>\<open>None\<close>, and a \<^verbatim>\<open>ValueError\<close> of the conversion is
  \<^verbatim>\<open>None\<close> as well.\<close>

definition parse_int :: "(string \<Rightarrow> int option) \<Rightarrow> string option \<Rightarrow> py_error + int option" where
  "parse_int py_int value =
     (case value of
        None \<Rightarrow> Inl AttributeError
      | Some value \<Rightarrow>
          (let value = strip value in
           if value \<noteq> [] then (case py_int value of Some n \<Rightarrow> Inr (Some n) | None \<Rightarrow> Inr None)
           else Inr None))"

definition parse_float :: "(string \<Rightarrow> 'a option) \<Rightarrow> string option \<Rightarrow> py_error + 'a option" where
  "parse_float py_float value =
     (case value of
        None \<Rightarrow> Inl AttributeError
      | Some value \<Rightarrow>
          (let value = strip value in
           if value \<noteq> [] then (case py_float value of Some x \<Rightarrow> Inr (Some x) | None \<Rightarrow> Inr None)
           else Inr None))"

subsection \<open>The readers of class CO2Charts\<close>

type_synonym 'v series = "(int, 'v option) dict"
type_synonym 'v table = "(string, 'v series) dict"

text \<open>One iteration of the loop of \<^verbatim>\<open>lese_energy\<close>. \<^verbatim>\<open>int(row["year"])\<close> raises
  \<^verbatim>\<open>TypeError\<close> on a missing cell; a year that does not convert takes the
  \<^verbatim>\<open>continue\<close>, before the population cell is looked at; otherwise the population is
  parsed, the country gets an empty series if it has none yet, and the year is stored in
  it.\<close>

definition lese_energy_row ::
  "(string \<Rightarrow> int option) \<Rightarrow> int table \<Rightarrow> energy_row \<Rightarrow> py_error + int table" where
  "lese_energy_row py_int bev_dict row =
     (let c = country row in
      case year row of
        None \<Rightarrow> Inl TypeError
      | Some s \<Rightarrow>
          (case py_int s of
             None \<Rightarrow> Inr bev_dict
           | Some y \<Rightarrow>
               (case parse_int py_int (population row) of
                  Inl e \<Rightarrow> Inl e
                | Inr p \<Rightarrow>
                    (let bev_dict = (if c \<notin> set (map fst bev_dict)
                                     then AList.update c [] bev_dict else bev_dict)
                     in Inr (AList.map_entry c (AList.update y p) bev_dict)))))"

definition lese_energy ::
  "(string \<Rightarrow> int option) \<Rightarrow> energy_row list \<Rightarrow> py_error + int table" where
  "lese_energy py_int rows = for_rows (lese_energy_row py_int) [] rows"

text \<open>The argument of \<^verbatim>\<open>lese_emissionen\<close> is one country name or a list of them. A row
  of a country that is not requested is passed over without a look at its other
  cells.\<close>

datatype countries_arg = Single string | Many "string list"

fun as_list :: "countries_arg \<Rightarrow> string list" where
  "as_list (Single c) = [c]"
| "as_list (Many cs) = cs"

definition lese_emissionen_row ::
  "(string \<Rightarrow> int option) \<Rightarrow> (string \<Rightarrow> 'a option) \<Rightarrow> string list \<Rightarrow>
   'a table \<Rightarrow> co2_row \<Rightarrow> py_error + 'a table" where
  "lese_emissionen_row py_int py_float countries emissions_dict row =
     (let c = Entity row in
      if c \<in> set countries then
        (case Year row of
           None \<Rightarrow> Inl TypeError
         | Some s \<Rightarrow>
             (case py_int s of
                None \<Rightarrow> Inr emissions_dict
              | Some y \<Rightarrow>
                  (case parse_float py_float (Annual_CO2 row) of
                     Inl e \<Rightarrow> Inl e
                   | Inr emissions \<Rightarrow>
                       Inr (AList.map_entry c (AList.update y emissions) emissions_dict))))
      else Inr emissions_dict)"

definition lese_emissionen ::
  "(string \<Rightarrow> int option) \<Rightarrow> (string \<Rightarrow> 'a option) \<Rightarrow> countries_arg \<Rightarrow>
   co2_row list \<Rightarrow> py_error + 'a table" where
  "lese_emissionen py_int py_float countries rows =
     (let countries = as_list countries;
          emissions_dict = foldl (\<lambda>d c. AList.update c [] d) [] countries
      in for_rows (lese_emissionen_row py_int py_float countries) emissions_dict rows)"

text \<open>\<^verbatim>\<open>get_available_countries\<close>: the set of the \<^verbatim>\<open>Entity\<close> cells, sorted. Strings are
  compared as Python compares them, lexicographically by character code.\<close>

definition get_available_countries :: "co2_row list \<Rightarrow> string list" where
  "get_available_countries rows = sorted_list_of_set (set (map Entity rows))"

subsection \<open>The four charts\<close>

text \<open>A figure is the list of the lines drawn on it, in plotting order; one line is one
  call \<^verbatim>\<open>ax.plot(x, y, label=country, color=color)\<close>. Titles and axis labels are
  constants of the source and are left out.\<close>

record 'v line =
  label :: string
  color :: string
  line_x :: "int list"
  line_y :: "'v list"

text \<open>The body of the loop of \<^verbatim>\<open>plot_co2_emission_per_capita\<close> for a country of the
  table, and the loop over \<^verbatim>\<open>countries_colors\<close>.\<close>

definition per_capita_line ::
  "string \<Rightarrow> string \<Rightarrow> 'a series \<Rightarrow> py_error + 'a option line" where
  "per_capita_line c col series =
     (let years = sort (map fst series) in
      case traverse (getitem series) years of
        Inl e \<Rightarrow> Inl e
      | Inr emissions \<Rightarrow>
          Inr \<lparr>label = c, color = col, line_x = years, line_y = emissions\<rparr>)"

fun plot_co2_emission_per_capita ::
  "'a table \<Rightarrow> (string \<times> string) list \<Rightarrow> py_error + 'a option line list" where
  "plot_co2_emission_per_capita co2_data [] = Inr []"
| "plot_co2_emission_per_capita co2_data ((c, col) # rest) =
     (case map_of co2_data c of
        None \<Rightarrow> plot_co2_emission_per_capita co2_data rest
      | Some series \<Rightarrow>
          (case per_capita_line c col series of
             Inl e \<Rightarrow> Inl e
           | Inr l \<Rightarrow>
               (case plot_co2_emission_per_capita co2_data rest of
                  Inl e \<Rightarrow> Inl e
                | Inr ax \<Rightarrow> Inr (l # ax))))"

text \<open>\<^verbatim>\<open>plot_absolut_co2_emissions\<close>: the years are the sorted intersection of the two
  key sets; a year at which either \<^verbatim>\<open>.get\<close> gives \<^verbatim>\<open>None\<close> contributes \<^verbatim>\<open>None\<close>, and
  any other year the product \<^verbatim>\<open>emissions * population\<close>. That product is the
  parameter \<open>py_mul\<close>: it raises \<^verbatim>\<open>OverflowError\<close> when the integer is too large to be
  converted to a float, and the exception ends the function.\<close>

definition absolut_line ::
  "('a \<Rightarrow> int \<Rightarrow> py_error + 'a) \<Rightarrow> string \<Rightarrow> string \<Rightarrow> 'a series \<Rightarrow> int series \<Rightarrow>
   py_error + 'a option line" where
  "absolut_line py_mul c col co2 pop =
     (let years = sorted_list_of_set (set (map fst co2) \<inter> set (map fst pop)) in
      case traverse
             (\<lambda>year.
                (let emissions = dict_get co2 year;
                     population = dict_get pop year
                 in case (emissions, population) of
                      (Some e, Some p) \<Rightarrow>
                        (case py_mul e p of Inl err \<Rightarrow> Inl err | Inr v \<Rightarrow> Inr (Some v))
                    | _ \<Rightarrow> Inr None)) years of
        Inl e \<Rightarrow> Inl e
      | Inr absolute_emissionen \<Rightarrow>
          Inr \<lparr>label = c, color = col, line_x = years, line_y = absolute_emissionen\<rparr>)"

fun plot_absolut_co2_emissions ::
  "('a \<Rightarrow> int \<Rightarrow> py_error + 'a) \<Rightarrow> 'a table \<Rightarrow> int table \<Rightarrow> (string \<times> string) list \<Rightarrow>
   py_error + 'a option line list" where
  "plot_absolut_co2_emissions py_mul co2_data pop_data [] = Inr []"
| "plot_absolut_co2_emissions py_mul co2_data pop_data ((c, col) # rest) =
     (case (map_of co2_data c, map_of pop_data c) of
        (Some co2, Some pop) \<Rightarrow>
          (case absolut_line py_mul c col co2 pop of
             Inl e \<Rightarrow> Inl e
           | Inr l \<Rightarrow>
               (case plot_absolut_co2_emissions py_mul co2_data pop_data rest of
                  Inl e \<Rightarrow> Inl e
                | Inr ax \<Rightarrow> Inr (l # ax)))
      | _ \<Rightarrow> plot_absolut_co2_emissions py_mul co2_data pop_data rest)"

text \<open>\<^verbatim>\<open>plot_co2_emission_changes\<close>: \<^verbatim>\<open>None\<close> is replaced by 0 before the differences
  are taken. The function also writes a warning for each selected country that is not a
  key of the table; the result carries the warned countries beside the lines.\<close>

definition changes_line ::
  "string \<Rightarrow> string \<Rightarrow> 'a series \<Rightarrow> py_error + ('a::{zero,minus}) line" where
  "changes_line c col series =
     (let years = sort (map fst series) in
      case traverse (\<lambda>year. case getitem series year of
                               Inl e \<Rightarrow> Inl e
                             | Inr v \<Rightarrow> Inr (case v of Some x \<Rightarrow> x | None \<Rightarrow> 0)) years of
        Inl e \<Rightarrow> Inl e
      | Inr emissions \<Rightarrow>
          (let yearly_changes =
                 map (\<lambda>i. emissions ! i - emissions ! (i - 1)) [1..<length emissions];
               change_years = drop 1 years
           in Inr \<lparr>label = c, color = col, line_x = change_years,
                    line_y = yearly_changes\<rparr>))"

fun plot_co2_emission_changes ::
  "'a table \<Rightarrow> (string \<times> string) list \<Rightarrow>
   py_error + (('a::{zero,minus}) line list \<times> string list)" where
  "plot_co2_emission_changes co2_data [] = Inr ([], [])"
| "plot_co2_emission_changes co2_data ((c, col) # rest) =
     (case map_of co2_data c of
        None \<Rightarrow>
          (case plot_co2_emission_changes co2_data rest of
             Inl e \<Rightarrow> Inl e
           | Inr (ax, warnings) \<Rightarrow> Inr (ax, c # warnings))
      | Some series \<Rightarrow>
          (case changes_line c col series of
             Inl e \<Rightarrow> Inl e
           | Inr l \<Rightarrow>
               (case plot_co2_emission_changes co2_data rest of
                  Inl e \<Rightarrow> Inl e
                | Inr (ax, warnings) \<Rightarrow> Inr (l # ax, warnings))))"

text \<open>\<^verbatim>\<open>plot_co2_emission_change_change\<close>: the values are taken as they are stored, so
  a subtraction with \<^verbatim>\<open>None\<close> as an operand raises \<^verbatim>\<open>TypeError\<close>.\<close>

fun py_minus :: "'a option \<Rightarrow> 'a option \<Rightarrow> py_error + ('a::minus)" where
  "py_minus (Some a) (Some b) = Inr (a - b)"
| "py_minus _ _ = Inl TypeError"

definition change_change_line ::
  "string \<Rightarrow> string \<Rightarrow> 'a series \<Rightarrow> py_error + ('a::minus) line" where
  "change_change_line c col series =
     (let years = sort (map fst series) in
      case traverse (getitem series) years of
        Inl e \<Rightarrow> Inl e
      | Inr emissions \<Rightarrow>
          (case traverse (\<lambda>i. py_minus (emissions ! i) (emissions ! (i - 1)))
                  [1..<length emissions] of
             Inl e \<Rightarrow> Inl e
           | Inr first_alternation \<Rightarrow>
               (let second_alternation =
                      map (\<lambda>i. first_alternation ! i - first_alternation ! (i - 1))
                        [1..<length first_alternation];
                    years_second_alternation = drop 2 years
                in Inr \<lparr>label = c, color = col, line_x = years_second_alternation,
                         line_y = second_alternation\<rparr>)))"

fun plot_co2_emission_change_change ::
  "'a table \<Rightarrow> (string \<times> string) list \<Rightarrow> py_error + ('a::minus) line list" where
  "plot_co2_emission_change_change co2_data [] = Inr []"
| "plot_co2_emission_change_change co2_data ((c, col) # rest) =
     (case map_of co2_data c of
        None \<Rightarrow> plot_co2_emission_change_change co2_data rest
      | Some series \<Rightarrow>
          (case change_change_line c col series of
             Inl e \<Rightarrow> Inl e
           | Inr l \<Rightarrow>
               (case plot_co2_emission_change_change co2_data rest of
                  Inl e \<Rightarrow> Inl e
                | Inr ax \<Rightarrow> Inr (l # ax))))"

subsection \<open>Decimal literals\<close>

text \<open>The plain decimal fragment of \<^verbatim>\<open>int(s)\<close> and \<^verbatim>\<open>float(s)\<close>: an optional sign and
  decimal digits, for \<^verbatim>\<open>float\<close> with an optional fraction part. They are the conversions
  at which the concrete sources below are read; the rationals hold every such literal
  exactly.\<close>

definition digit :: "char \<Rightarrow> nat option" where
  "digit ch = (let n = (of_char ch :: nat) in if 48 \<le> n \<and> n \<le> 57 then Some (n - 48) else None)"

fun digits :: "nat \<Rightarrow> string \<Rightarrow> nat option" where
  "digits acc [] = Some acc"
| "digits acc (ch # cs) =
     (case digit ch of None \<Rightarrow> None | Some d \<Rightarrow> digits (10 * acc + d) cs)"

fun sign_of :: "string \<Rightarrow> bool \<times> string" where
  "sign_of [] = (False, [])"
| "sign_of (ch # cs) =
     (if ch = CHR ''-'' then (True, cs)
      else if ch = CHR ''+'' then (False, cs)
      else (False, ch # cs))"

definition int_literal :: "string \<Rightarrow> int option" where
  "int_literal s =
     (let (neg, ds) = sign_of (strip s) in
      if ds = [] then None
      else (case digits 0 ds of
              None \<Rightarrow> None
            | Some n \<Rightarrow> Some (if neg then - int n else int n)))"

definition decimal_literal :: "string \<Rightarrow> rat option" where
  "decimal_literal s =
     (let (neg, ds) = sign_of (strip s);
          ip = takeWhile (\<lambda>ch. ch \<noteq> CHR ''.'') ds;
          fp = drop 1 (dropWhile (\<lambda>ch. ch \<noteq> CHR ''.'') ds)
      in if ip @ fp = [] then None
         else (case digits 0 (ip @ fp) of
                 None \<Rightarrow> None
               | Some n \<Rightarrow>
                   (let q = of_nat n / of_nat (10 ^ length fp)
                    in Some (if neg then - q else q))))"

text \<open>The product of a float and an integer at which the concrete sources below are
  charted. Python converts the integer to a float, which raises \<^verbatim>\<open>OverflowError\<close> for
  an integer that rounds to \<open>2 ^ 1024\<close> or beyond, and multiplies the two floats. The
  exact product stands for the product of the floats, which it is when the operands and
  the product are floats, as for \<open>8.5 * 38000000\<close> below; rounding is not modelled.\<close>

definition float_times_int :: "rat \<Rightarrow> int \<Rightarrow> py_error + rat" where
  "float_times_int e p =
     (if 2 ^ 1024 - 2 ^ 970 \<le> \<bar>p\<bar> then Inl OverflowError else Inr (e * of_int p))"

subsection \<open>Observations on tables\<close>

text \<open>\<open>entry t c y\<close> is what \<^verbatim>\<open>t[c][y]\<close> holds: \<open>None\<close> when the country or the year
  is not a key, \<open>Some v\<close> for a stored cell value \<open>v\<close>, which may be \<^verbatim>\<open>None\<close> itself.
  \<open>wf_table\<close> says that a nested association list is a dictionary of dictionaries: no
  key occurs twice, on either level.\<close>

definition entry :: "('k, ('y, 'v) dict) dict \<Rightarrow> 'k \<Rightarrow> 'y \<Rightarrow> 'v option" where
  "entry t c y = (case map_of t c of None \<Rightarrow> None | Some s \<Rightarrow> map_of s y)"

definition wf_table :: "('k, ('y, 'v) dict) dict \<Rightarrow> bool" where
  "wf_table t = (distinct (map fst t) \<and> list_all (\<lambda>p. distinct (map fst (snd p))) t)"

subsection \<open>Concrete sources\<close>

text \<open>The scenario of the specification: two population rows and two emissions rows
  for Poland, the second emissions cell blank; and an emissions source whose only row for
  Atlantis has a year that is no integer.\<close>

definition scenario_population :: "energy_row list" where
  "scenario_population =
     [\<lparr>country = ''Poland'', year = Some ''2019'', population = Some ''38000000''\<rparr>,
      \<lparr>country = ''Poland'', year = Some ''2020'', population = Some ''37800000''\<rparr>]"

definition scenario_emissions :: "co2_row list" where
  "scenario_emissions =
     [\<lparr>Entity = ''Poland'', Year = Some ''2019'', Annual_CO2 = Some ''8.5''\<rparr>,
      \<lparr>Entity = ''Poland'', Year = Some ''2020'', Annual_CO2 = Some ''''\<rparr>]"

definition atlantis_emissions :: "co2_row list" where
  "atlantis_emissions =
     [\<lparr>Entity = ''Poland'', Year = Some ''2019'', Annual_CO2 = Some ''8.5''\<rparr>,
      \<lparr>Entity = ''Atlantis'', Year = Some ''n/a'', Annual_CO2 = Some ''1.0''\<rparr>]"

text \<open>Sources that repeat a (country, year) pair, and rows with malformed cells.\<close>

definition duplicate_population :: "energy_row list" where
  "duplicate_population =
     [\<lparr>country = ''Poland'', year = Some ''2019'', population = Some ''38000000''\<rparr>,
      \<lparr>country = ''Poland'', year = Some ''2019'', population = Some ''37800000''\<rparr>]"

definition duplicate_emissions :: "co2_row list" where
  "duplicate_emissions =
     [\<lparr>Entity = ''Poland'', Year = Some ''2019'', Annual_CO2 = Some ''''\<rparr>,
      \<lparr>Entity = ''Poland'', Year = Some ''2019'', Annual_CO2 = Some ''8.5''\<rparr>]"

definition bad_year_population :: energy_row where
  "bad_year_population =
     \<lparr>country = ''Poland'', year = Some ''n/a'', population = Some ''38000000''\<rparr>"

definition bad_year_emissions :: co2_row where
  "bad_year_emissions =
     \<lparr>Entity = ''Poland'', Year = Some ''n/a'', Annual_CO2 = Some ''8.5''\<rparr>"

definition blank_population :: energy_row where
  "blank_population = \<lparr>country = ''Poland'', year = Some ''2020'', population = Some ''''\<rparr>"

definition blank_emissions :: co2_row where
  "blank_emissions = \<lparr>Entity = ''Poland'', Year = Some ''2020'', Annual_CO2 = Some ''''\<rparr>"

text \<open>The rows of the short lines \<^verbatim>\<open>Poland,2021\<close> of the population source and
  \<^verbatim>\<open>Poland\<close> of the emissions source.\<close>

definition short_population :: energy_row where
  "short_population = \<lparr>country = ''Poland'', year = Some ''2021'', population = None\<rparr>"

definition short_emissions :: co2_row where
  "short_emissions = \<lparr>Entity = ''Poland'', Year = None, Annual_CO2 = None\<rparr>"

text \<open>An emissions source with a blank cell between two values.\<close>

definition gap_emissions :: "co2_row list" where
  "gap_emissions =
     [\<lparr>Entity = ''Poland'', Year = Some ''2019'', Annual_CO2 = Some ''8.5''\<rparr>,
      \<lparr>Entity = ''Poland'', Year = Some ''2020'', Annual_CO2 = Some ''''\<rparr>,
      \<lparr>Entity = ''Poland'', Year = Some ''2021'', Annual_CO2 = Some ''7.5''\<rparr>]"

text \<open>A population source whose population cell is a 1 followed by 400 zeros.\<close>

definition huge_population :: "energy_row list" where
  "huge_population =
     [\<lparr>country = ''Poland'', year = Some ''2019'',
       population = Some (CHR ''1'' # replicate 400 CHR ''0'')\<rparr>]"

section \<open>Properties of the readers\<close>

subsection \<open>The loop over the rows\<close>

text \<open>A loop that returned has run its body on every row; an invariant of the body is
  an invariant of the loop; and a row on which the body does nothing can be left out.\<close>

lemma for_rows_append:
  "for_rows body t (xs @ ys) =
     (case for_rows body t xs of Inl e \<Rightarrow> Inl e | Inr t' \<Rightarrow> for_rows body t' ys)"
  by (induction xs arbitrary: t) (simp_all split: sum.splits)

lemma for_rows_split:
  assumes "for_rows body t (pre @ r # post) = Inr t'"
  shows "\<exists>t1 t2. for_rows body t pre = Inr t1 \<and> body t1 r = Inr t2 \<and>
                 for_rows body t2 post = Inr t'"
  using assms by (auto simp: for_rows_append split: sum.splits)

lemma for_rows_invariant:
  assumes "\<And>t r t'. P t \<Longrightarrow> body t r = Inr t' \<Longrightarrow> P t'"
    and "P t" and "for_rows body t rows = Inr t'"
  shows "P t'"
  using assms(2,3)
proof (induction rows arbitrary: t)
  case Nil
  then show ?case by simp
next
  case (Cons r rows)
  from Cons.prems(2) obtain t1 where "body t r = Inr t1" "for_rows body t1 rows = Inr t'"
    by (auto split: sum.splits)
  with Cons.IH [of t1] assms(1) [of t r t1] Cons.prems(1) show ?case by blast
qed

lemma for_rows_unchanged:
  "(\<And>r. r \<in> set rows \<Longrightarrow> body t r = Inr t) \<Longrightarrow> for_rows body t rows = Inr t"
  by (induction rows) simp_all

lemma for_rows_skip:
  "(\<And>t. body t r = Inr t) \<Longrightarrow>
   for_rows body t (pre @ r # post) = for_rows body t (pre @ post)"
  by (simp add: for_rows_append split: sum.splits)


lemma for_rows_returns:
  "(\<And>t r. r \<in> set rows \<Longrightarrow> \<exists>t'. body t r = Inr t') \<Longrightarrow> \<exists>t'. for_rows body t rows = Inr t'"
proof (induction rows arbitrary: t)
  case Nil
  then show ?case by simp
next
  case (Cons r rows)
  from Cons.prems [of r t] obtain t1 where "body t r = Inr t1" by auto
  moreover from Cons.IH [of t1] Cons.prems obtain t' where "for_rows body t1 rows = Inr t'"
    by auto
  ultimately show ?case by simp
qed

subsection \<open>Keys and entries\<close>

text \<open>What one iteration does to the keys and to \<open>entry\<close> when it returns, and the keys
  of the table that \<^verbatim>\<open>lese_emissionen\<close> starts from and returns.\<close>

lemma map_fst_map_entry: "map fst (AList.map_entry k f xs) = map fst xs"
  by (induction xs) auto

lemma key_iff: "c \<in> fst ` set t \<longleftrightarrow> map_of t c \<noteq> None"
  by (simp add: map_of_eq_None_iff)

lemma entry_map_entry_update:
  "entry (AList.map_entry c (AList.update y v) t) c' y' =
     (if c' = c \<and> y' = y \<and> c \<in> fst ` set t then Some v else entry t c' y')"
  by (auto simp: entry_def map_of_map_entry update_conv' key_iff
      split: option.splits)

lemma entry_update_empty:
  "c \<notin> fst ` set t \<Longrightarrow> entry (AList.update c [] t) c' y' = entry t c' y'"
  by (auto simp: entry_def update_conv' key_iff split: option.splits)

lemma entry_lese_energy_row:
  "lese_energy_row py_int t r = Inr t' \<Longrightarrow>
   entry t' c y =
     (if country r = c \<and> Option.bind (year r) py_int = Some y
      then (case parse_int py_int (population r) of Inr p \<Rightarrow> Some p | Inl e \<Rightarrow> None)
      else entry t c y)"
  by (auto simp: lese_energy_row_def Let_def entry_map_entry_update entry_update_empty
      dom_update split: option.splits sum.splits)

lemma entry_lese_emissionen_row:
  "lese_emissionen_row py_int py_float cs t r = Inr t' \<Longrightarrow>
   entry t' c y =
     (if Entity r = c \<and> c \<in> set cs \<and> c \<in> fst ` set t \<and>
         Option.bind (Year r) py_int = Some y
      then (case parse_float py_float (Annual_CO2 r) of Inr v \<Rightarrow> Some v | Inl e \<Rightarrow> None)
      else entry t c y)"
  by (force simp: lese_emissionen_row_def Let_def entry_map_entry_update
      split: option.splits sum.splits if_splits)

lemma keys_lese_emissionen_row:
  "lese_emissionen_row py_int py_float cs t r = Inr t' \<Longrightarrow> map fst t' = map fst t"
  by (auto simp: lese_emissionen_row_def Let_def map_fst_map_entry
      split: option.splits sum.splits if_splits)

lemma keys_for_rows_lese_emissionen_row:
  "for_rows (lese_emissionen_row py_int py_float cs) t rows = Inr t' \<Longrightarrow>
   map fst t' = map fst t"
  by (rule for_rows_invariant [where P = "\<lambda>u. map fst u = map fst t"])
    (auto dest: keys_lese_emissionen_row)

lemma keys_init:
  "set (map fst (foldl (\<lambda>d c. AList.update c [] d) t cs)) = set (map fst t) \<union> set cs"
  by (induction cs arbitrary: t) (auto simp: dom_update)



lemma keys_lese_emissionen:
  "lese_emissionen py_int py_float cs rows = Inr t \<Longrightarrow> set (map fst t) = set (as_list cs)"
  by (auto simp: lese_emissionen_def Let_def keys_init
      dest!: keys_for_rows_lese_emissionen_row simp del: set_map)

subsection \<open>One row\<close>

text \<open>A row whose year string does not convert leaves the table as it is; an iteration
  returns when the row lacks no cell, and then stores the parsed value.\<close>

lemma lese_energy_row_skip:
  "year r = Some s \<Longrightarrow> py_int s = None \<Longrightarrow> lese_energy_row py_int t r = Inr t"
  by (simp add: lese_energy_row_def)

lemma lese_emissionen_row_skip:
  "Entity r \<notin> set cs \<or> (\<exists>s. Year r = Some s \<and> py_int s = None) \<Longrightarrow>
   lese_emissionen_row py_int py_float cs t r = Inr t"
  by (auto simp: lese_emissionen_row_def Let_def)

lemma parse_int_string: "\<exists>p. parse_int py_int (Some s) = Inr p"
  by (simp add: parse_int_def Let_def split: option.splits)

lemma parse_float_string: "\<exists>v. parse_float py_float (Some s) = Inr v"
  by (simp add: parse_float_def Let_def split: option.splits)

lemma lese_energy_row_returns:
  assumes "year r \<noteq> None" and "population r \<noteq> None"
  shows "\<exists>t'. lese_energy_row py_int t r = Inr t'"
proof -
  from assms obtain s v where "year r = Some s" "population r = Some v" by auto
  moreover obtain p where "parse_int py_int (Some v) = Inr p"
    using parse_int_string by blast
  ultimately show ?thesis
    by (simp add: lese_energy_row_def Let_def split: option.splits)
qed

lemma lese_emissionen_row_returns:
  assumes "Entity r \<in> set cs \<longrightarrow> Year r \<noteq> None \<and> Annual_CO2 r \<noteq> None"
  shows "\<exists>t'. lese_emissionen_row py_int py_float cs t r = Inr t'"
proof (cases "Entity r \<in> set cs")
  case False
  then show ?thesis by (simp add: lese_emissionen_row_skip)
next
  case True
  with assms obtain s v where "Year r = Some s" "Annual_CO2 r = Some v" by auto
  moreover obtain x where "parse_float py_float (Some v) = Inr x"
    using parse_float_string by blast
  ultimately show ?thesis
    using True by (simp add: lese_emissionen_row_def Let_def split: option.splits)
qed

lemma lese_energy_row_parsed:
  "lese_energy_row py_int t r = Inr t' \<Longrightarrow> Option.bind (year r) py_int = Some y \<Longrightarrow>
   \<exists>p. parse_int py_int (population r) = Inr p"
  by (auto simp: lese_energy_row_def Let_def split: option.splits sum.splits)

lemma lese_emissionen_row_parsed:
  "lese_emissionen_row py_int py_float cs t r = Inr t' \<Longrightarrow> Entity r \<in> set cs \<Longrightarrow>
   Option.bind (Year r) py_int = Some y \<Longrightarrow>
   \<exists>v. parse_float py_float (Annual_CO2 r) = Inr v"
  by (auto simp: lese_emissionen_row_def Let_def split: option.splits sum.splits)

subsection \<open>All rows\<close>

text \<open>Rows for another country or year leave an entry as it is, and the last row for
  a country and year decides it.\<close>

lemma entry_for_rows_lese_energy_row_other:
  "for_rows (lese_energy_row py_int) t rows = Inr t' \<Longrightarrow>
   \<forall>r\<in>set rows. \<not> (country r = c \<and> Option.bind (year r) py_int = Some y) \<Longrightarrow>
   entry t' c y = entry t c y"
proof (induction rows arbitrary: t)
  case Nil
  then show ?case by simp
next
  case (Cons r rows)
  from Cons.prems(1) obtain t1 where step: "lese_energy_row py_int t r = Inr t1"
    and rest: "for_rows (lese_energy_row py_int) t1 rows = Inr t'"
    by (auto split: sum.splits)
  from Cons.prems(2) have "\<not> (country r = c \<and> Option.bind (year r) py_int = Some y)"
    by simp
  with entry_lese_energy_row [OF step, of c y] have "entry t1 c y = entry t c y"
    by (simp split: if_splits)
  with Cons.IH [OF rest] Cons.prems(2) show ?case by simp
qed

lemma entry_for_rows_lese_emissionen_row_other:
  "for_rows (lese_emissionen_row py_int py_float cs) t rows = Inr t' \<Longrightarrow>
   \<forall>r\<in>set rows. \<not> (Entity r = c \<and> Option.bind (Year r) py_int = Some y) \<Longrightarrow>
   entry t' c y = entry t c y"
proof (induction rows arbitrary: t)
  case Nil
  then show ?case by simp
next
  case (Cons r rows)
  from Cons.prems(1) obtain t1 where
    step: "lese_emissionen_row py_int py_float cs t r = Inr t1"
    and rest: "for_rows (lese_emissionen_row py_int py_float cs) t1 rows = Inr t'"
    by (auto split: sum.splits)
  from Cons.prems(2) have "\<not> (Entity r = c \<and> Option.bind (Year r) py_int = Some y)"
    by simp
  with entry_lese_emissionen_row [OF step, of c y] have "entry t1 c y = entry t c y"
    by auto
  with Cons.IH [OF rest] Cons.prems(2) show ?case by simp
qed



lemma entry_lese_energy_last:
  assumes "lese_energy py_int (pre @ r # post) = Inr t"
    and "Option.bind (year r) py_int = Some y"
    and "\<forall>r'\<in>set post. \<not> (country r' = country r \<and> Option.bind (year r') py_int = Some y)"
  shows "\<exists>p. parse_int py_int (population r) = Inr p \<and> entry t (country r) y = Some p"
proof -
  from assms(1) obtain t1 t2 where
    step: "lese_energy_row py_int t1 r = Inr t2"
    and rest: "for_rows (lese_energy_row py_int) t2 post = Inr t"
    unfolding lese_energy_def by (blast dest: for_rows_split)
  from lese_energy_row_parsed [OF step assms(2)]
  obtain p where p: "parse_int py_int (population r) = Inr p" ..
  with entry_lese_energy_row [OF step, of "country r" y] assms(2)
  have "entry t2 (country r) y = Some p" by simp
  with entry_for_rows_lese_energy_row_other [OF rest assms(3)] p show ?thesis by simp
qed

lemma entry_lese_emissionen_last:
  assumes "lese_emissionen py_int py_float cs (pre @ r # post) = Inr t"
    and "Entity r \<in> set (as_list cs)"
    and "Option.bind (Year r) py_int = Some y"
    and "\<forall>r'\<in>set post. \<not> (Entity r' = Entity r \<and> Option.bind (Year r') py_int = Some y)"
  shows "\<exists>v. parse_float py_float (Annual_CO2 r) = Inr v \<and> entry t (Entity r) y = Some v"
proof -
  let ?init = "foldl (\<lambda>d c. AList.update c [] d) [] (as_list cs)"
  let ?body = "lese_emissionen_row py_int py_float (as_list cs)"
  from assms(1) obtain t1 t2 where
    first: "for_rows ?body ?init pre = Inr t1"
    and step: "?body t1 r = Inr t2"
    and rest: "for_rows ?body t2 post = Inr t"
    unfolding lese_emissionen_def Let_def by (blast dest: for_rows_split)
  from keys_for_rows_lese_emissionen_row [OF first]
  have "set (map fst t1) = set (as_list cs)"
    by (simp add: keys_init del: set_map)
  with assms(2) have key: "Entity r \<in> fst ` set t1" by simp
  from lese_emissionen_row_parsed [OF step assms(2,3)]
  obtain v where v: "parse_float py_float (Annual_CO2 r) = Inr v" ..
  with entry_lese_emissionen_row [OF step, of "Entity r" y] assms(2,3) key
  have "entry t2 (Entity r) y = Some v" by simp
  with entry_for_rows_lese_emissionen_row_other [OF rest assms(4)] v show ?thesis by simp
qed

subsection \<open>Tables are dictionaries of dictionaries\<close>

text \<open>A table is well formed when no country is a key twice and no year is a key twice in
  a series: then the association lists are dictionaries.\<close>

lemma snd_set_update: "snd ` set (AList.update k v al) \<subseteq> insert v (snd ` set al)"
  by (induction al) auto

lemma snd_set_map_entry:
  "snd ` set (AList.map_entry k f xs) \<subseteq> snd ` set xs \<union> f ` snd ` set xs"
  by (induction xs) auto

lemma wf_table_iff:
  "wf_table t \<longleftrightarrow> distinct (map fst t) \<and> (\<forall>s\<in>snd ` set t. distinct (map fst s))"
  by (auto simp: wf_table_def list_all_iff)

lemma wf_table_update_empty:
  assumes "wf_table t"
  shows "wf_table (AList.update c [] t)"
proof -
  have "distinct (map fst s)" if "s \<in> snd ` set (AList.update c [] t)" for s
  proof -
    from that snd_set_update [of c "[]" t] have "s = [] \<or> s \<in> snd ` set t" by blast
    with assms show ?thesis by (auto simp: wf_table_iff)
  qed
  with assms show ?thesis by (simp add: wf_table_iff distinct_update)
qed

lemma wf_table_map_entry_update:
  assumes "wf_table t"
  shows "wf_table (AList.map_entry c (AList.update y v) t)"
proof -
  have "distinct (map fst s)"
    if "s \<in> snd ` set (AList.map_entry c (AList.update y v) t)" for s
  proof -
    from that snd_set_map_entry [of c "AList.update y v" t]
    have "s \<in> snd ` set t \<or> (\<exists>s'\<in>snd ` set t. s = AList.update y v s')" by blast
    with assms show ?thesis by (auto simp: wf_table_iff distinct_update)
  qed
  with assms show ?thesis by (simp add: wf_table_iff distinct_map_entry)
qed

lemma distinct_filter_key:
  "distinct (map fst s) \<Longrightarrow> map_of s y = Some v \<Longrightarrow> filter (\<lambda>p. fst p = y) s = [(y, v)]"
proof (induction s)
  case Nil
  then show ?case by simp
next
  case (Cons p s)
  show ?case
  proof (cases "fst p = y")
    case True
    with Cons.prems have "p = (y, v)" by (cases p) simp
    moreover from True Cons.prems have "y \<notin> fst ` set s" by simp
    then have "filter (\<lambda>q. fst q = y) s = []"
      by (auto simp: filter_empty_conv)
    ultimately show ?thesis by simp
  next
    case False
    with Cons show ?thesis by simp
  qed
qed

lemma entry_SomeD:
  "entry t c y = Some v \<Longrightarrow> \<exists>s. map_of t c = Some s \<and> map_of s y = Some v"
  by (auto simp: entry_def split: option.splits)

lemma one_entry:
  assumes "wf_table t" and "entry t c y = Some v"
  shows "\<exists>s. map_of t c = Some s \<and> filter (\<lambda>p. fst p = y) s = [(y, v)]"
proof -
  from assms(2) obtain s where s: "map_of t c = Some s" "map_of s y = Some v"
    by (auto dest: entry_SomeD)
  from s(1) have "s \<in> snd ` set t" by (force dest: map_of_SomeD)
  with assms(1) have "distinct (map fst s)" unfolding wf_table_iff by blast
  with s show ?thesis by (simp add: distinct_filter_key)
qed

subsection \<open>The conversions on the concrete sources\<close>

lemma digit_simps:
  "digit CHR ''0'' = Some 0" "digit CHR ''1'' = Some 1" "digit CHR ''2'' = Some 2"
  "digit CHR ''3'' = Some 3" "digit CHR ''4'' = Some 4" "digit CHR ''5'' = Some 5"
  "digit CHR ''6'' = Some 6" "digit CHR ''7'' = Some 7" "digit CHR ''8'' = Some 8"
  "digit CHR ''9'' = Some 9" "digit CHR ''n'' = None"
  by (simp_all add: digit_def)

lemma isspace_simps:
  "\<not> isspace CHR ''0''" "\<not> isspace CHR ''1''" "\<not> isspace CHR ''2''"
  "\<not> isspace CHR ''3''" "\<not> isspace CHR ''5''" "\<not> isspace CHR ''7''"
  "\<not> isspace CHR ''8''" "\<not> isspace CHR ''9''" "\<not> isspace CHR ''n''"
  "\<not> isspace CHR ''a''"
  by (simp_all add: isspace_def)

lemma strip_no_space:
  assumes "s \<noteq> []" and "\<not> isspace (hd s)" and "\<not> isspace (last s)"
  shows "strip s = s"
proof -
  from assms have front: "dropWhile isspace s = s"
    by (cases s) simp_all
  from assms have rear: "dropWhile isspace (rev s) = rev s"
    by (cases s rule: rev_cases) simp_all
  show ?thesis
    by (simp add: strip_def front rear)
qed

lemma int_literal_2019: "int_literal ''2019'' = Some 2019"
  by (simp add: int_literal_def strip_no_space isspace_simps digit_simps)

lemma int_literal_2020: "int_literal ''2020'' = Some 2020"
  by (simp add: int_literal_def strip_no_space isspace_simps digit_simps)

lemma int_literal_na: "int_literal ''n/a'' = None"
  by (simp add: int_literal_def strip_no_space isspace_simps digit_simps)

lemma int_literal_2021: "int_literal ''2021'' = Some 2021"
  by (simp add: int_literal_def strip_no_space isspace_simps digit_simps)

text \<open>Both readers keep their table well formed.\<close>

lemma wf_table_lese_energy_row:
  "wf_table t \<Longrightarrow> lese_energy_row py_int t r = Inr t' \<Longrightarrow> wf_table t'"
  by (auto simp: lese_energy_row_def Let_def wf_table_update_empty wf_table_map_entry_update
      split: option.splits sum.splits if_splits)

lemma wf_table_lese_emissionen_row:
  "wf_table t \<Longrightarrow> lese_emissionen_row py_int py_float cs t r = Inr t' \<Longrightarrow> wf_table t'"
  by (auto simp: lese_emissionen_row_def Let_def wf_table_map_entry_update
      split: option.splits sum.splits if_splits)

lemma wf_table_init: "wf_table t \<Longrightarrow> wf_table (foldl (\<lambda>d c. AList.update c [] d) t cs)"
  by (induction cs arbitrary: t) (simp_all add: wf_table_update_empty)

lemma wf_table_lese_energy: "lese_energy py_int rows = Inr t \<Longrightarrow> wf_table t"
  unfolding lese_energy_def
proof (rule for_rows_invariant [where P = wf_table])
  show "wf_table ([] :: int table)" by (simp add: wf_table_def)
qed (auto dest: wf_table_lese_energy_row)

lemma wf_table_lese_emissionen:
  "lese_emissionen py_int py_float cs rows = Inr t \<Longrightarrow> wf_table t"
  unfolding lese_emissionen_def Let_def
proof (rule for_rows_invariant [where P = wf_table])
  show "wf_table (foldl (\<lambda>d c. AList.update c [] d) [] (as_list cs))"
    by (rule wf_table_init) (simp add: wf_table_def)
qed (auto dest: wf_table_lese_emissionen_row)

text \<open>The cells of the concrete sources, and the tables read from them.\<close>

lemma parse_int_pop1: "parse_int int_literal (Some ''38000000'') = Inr (Some 38000000)"
  by (simp add: parse_int_def int_literal_def strip_no_space isspace_simps digit_simps)

lemma parse_int_pop2: "parse_int int_literal (Some ''37800000'') = Inr (Some 37800000)"
  by (simp add: parse_int_def int_literal_def strip_no_space isspace_simps digit_simps)

lemma parse_float_85: "parse_float decimal_literal (Some ''8.5'') = Inr (Some (17 / 2))"
  by (simp add: parse_float_def decimal_literal_def strip_no_space isspace_simps digit_simps)

lemma parse_float_75: "parse_float decimal_literal (Some ''7.5'') = Inr (Some (15 / 2))"
  by (simp add: parse_float_def decimal_literal_def strip_no_space isspace_simps digit_simps)

lemma parse_float_blank: "parse_float py_float (Some '''') = Inr None"
  by (simp add: parse_float_def strip_def)

lemma parse_int_blank: "parse_int py_int (Some '''') = Inr None"
  by (simp add: parse_int_def strip_def)

lemma parse_int_None:
  "strip s = [] \<or> py_int (strip s) = None \<Longrightarrow> parse_int py_int (Some s) = Inr None"
  by (auto simp: parse_int_def Let_def)

lemma parse_float_None:
  "strip s = [] \<or> py_float (strip s) = None \<Longrightarrow> parse_float py_float (Some s) = Inr None"
  by (auto simp: parse_float_def Let_def)

lemma scenario_lese_energy:
  "lese_energy int_literal scenario_population =
     Inr [(''Poland'', [(2019, Some 38000000), (2020, Some 37800000)])]"
  by (simp add: lese_energy_def scenario_population_def lese_energy_row_def
      int_literal_2019 int_literal_2020 parse_int_pop1 parse_int_pop2)

lemma scenario_lese_emissionen:
  "lese_emissionen int_literal decimal_literal (Many [''Poland'']) scenario_emissions =
     Inr [(''Poland'', [(2019, Some (17 / 2)), (2020, None)])]"
  by (simp add: lese_emissionen_def scenario_emissions_def lese_emissionen_row_def
      int_literal_2019 int_literal_2020 parse_float_85 parse_float_blank)

lemma gap_lese_emissionen:
  "lese_emissionen int_literal decimal_literal (Many [''Poland'']) gap_emissions =
     Inr [(''Poland'', [(2019, Some (17 / 2)), (2020, None), (2021, Some (15 / 2))])]"
  by (simp add: lese_emissionen_def gap_emissions_def lese_emissionen_row_def
      int_literal_2019 int_literal_2020 int_literal_2021 parse_float_85 parse_float_75
      parse_float_blank)

lemma no_rows_lese_emissionen:
  "lese_emissionen int_literal decimal_literal (Many [''Atlantis'']) scenario_emissions =
     Inr [(''Atlantis'', [])]"
  by (simp add: lese_emissionen_def scenario_emissions_def lese_emissionen_row_def)

section \<open>The reader: claims\<close>




text \<open>
  C7. \<^verbatim>\<open>get_available_countries\<close> returns a list that is sorted in the order of
  strings (character codes, hence case-sensitive), has no duplicates, and contains
  exactly the country names that appear in the source; it is the same for every
  reordering of the rows.
\<close>

theorem C7_list_countries:
  "sorted (get_available_countries rows) \<and>
   distinct (get_available_countries rows) \<and>
   set (get_available_countries rows) = Entity ` set rows \<and>
   (\<forall>rows'. mset rows' = mset rows \<longrightarrow>
      get_available_countries rows' = get_available_countries rows)"
proof (intro conjI allI impI)
  show "sorted (get_available_countries rows)"
    unfolding get_available_countries_def by (rule sorted_sorted_list_of_set)
  show "distinct (get_available_countries rows)"
    unfolding get_available_countries_def by (rule distinct_sorted_list_of_set)
  show "set (get_available_countries rows) = Entity ` set rows"
    unfolding get_available_countries_def by simp
next
  fix rows' :: "co2_row list"
  assume "mset rows' = mset rows"
  then have "set rows' = set rows" by (rule mset_eq_setD)
  then have "set (map Entity rows') = set (map Entity rows)" by (simp only: set_map)
  then show "get_available_countries rows' = get_available_countries rows"
    unfolding get_available_countries_def by (rule arg_cong)
qed

text \<open>Two orders of the same three rows give the same list.\<close>

theorem C7_witness:
  "get_available_countries
     [\<lparr>Entity = ''poland'', Year = Some ''2019'', Annual_CO2 = Some ''8.5''\<rparr>,
      \<lparr>Entity = ''Zambia'', Year = Some ''2019'', Annual_CO2 = Some ''0.3''\<rparr>,
      \<lparr>Entity = ''poland'', Year = Some ''2020'', Annual_CO2 = Some ''8.1''\<rparr>] =
   get_available_countries
     [\<lparr>Entity = ''Zambia'', Year = Some ''2019'', Annual_CO2 = Some ''0.3''\<rparr>,
      \<lparr>Entity = ''poland'', Year = Some ''2020'', Annual_CO2 = Some ''8.1''\<rparr>,
      \<lparr>Entity = ''poland'', Year = Some ''2019'', Annual_CO2 = Some ''8.5''\<rparr>]"
proof -
  let ?a = "\<lparr>Entity = ''poland'', Year = Some ''2019'', Annual_CO2 = Some ''8.5''\<rparr>"
  let ?b = "\<lparr>Entity = ''Zambia'', Year = Some ''2019'', Annual_CO2 = Some ''0.3''\<rparr>"
  let ?c = "\<lparr>Entity = ''poland'', Year = Some ''2020'', Annual_CO2 = Some ''8.1''\<rparr>"
  have "mset [?a, ?b, ?c] = mset [?b, ?c, ?a]" by simp
  with C7_list_countries [of "[?b, ?c, ?a]"] show ?thesis by blast
qed

text \<open>The order is by character code: an upper-case initial comes before a lower-case
  one.\<close>

lemma case_sensitive_order:
  "get_available_countries
     [\<lparr>Entity = ''poland'', Year = Some ''2019'', Annual_CO2 = Some ''8.5''\<rparr>,
      \<lparr>Entity = ''Zambia'', Year = Some ''2019'', Annual_CO2 = Some ''0.3''\<rparr>,
      \<lparr>Entity = ''poland'', Year = Some ''2020'', Annual_CO2 = Some ''8.1''\<rparr>] =
   [''Zambia'', ''poland'']"
  unfolding get_available_countries_def sorted_list_of_set_sort_remdups by simp

text \<open>
  C10. \<^verbatim>\<open>get_available_countries\<close> does not look at the year: a country all of whose
  rows have a year that does not convert is still listed, while \<^verbatim>\<open>lese_emissionen\<close>
  requested with that country alone (as a string or as a one-element list) returns the
  country mapped to the empty series.
\<close>

theorem C10_listed_without_data:
  assumes "C \<in> Entity ` set rows"
    and "\<forall>r\<in>set rows. Entity r = C \<longrightarrow> (\<exists>s. Year r = Some s \<and> py_int s = None)"
  shows "C \<in> set (get_available_countries rows) \<and>
         lese_emissionen py_int py_float (Single C) rows = Inr [(C, [])] \<and>
         lese_emissionen py_int py_float (Many [C]) rows = Inr [(C, [])]"
proof -
  have listed: "C \<in> set (get_available_countries rows)"
    using assms(1) by (simp add: get_available_countries_def)
  have "for_rows (lese_emissionen_row py_int py_float [C]) [(C, [])] rows = Inr [(C, [])]"
  proof (rule for_rows_unchanged)
    fix r assume "r \<in> set rows"
    with assms(2) have "Entity r \<notin> set [C] \<or> (\<exists>s. Year r = Some s \<and> py_int s = None)"
      by auto
    then show "lese_emissionen_row py_int py_float [C] [(C, [])] r = Inr [(C, [])]"
      by (rule lese_emissionen_row_skip)
  qed
  then have "lese_emissionen py_int py_float (Single C) rows = Inr [(C, [])]"
    and "lese_emissionen py_int py_float (Many [C]) rows = Inr [(C, [])]"
    by (simp_all add: lese_emissionen_def)
  with listed show ?thesis by simp
qed

text \<open>The source \<open>atlantis_emissions\<close> is such a source for Atlantis.\<close>

theorem C10_witness:
  "''Atlantis'' \<in> set (get_available_countries atlantis_emissions) \<and>
   lese_emissionen int_literal decimal_literal (Many [''Atlantis'']) atlantis_emissions =
     Inr [(''Atlantis'', [])]"
proof -
  have h1: "''Atlantis'' \<in> Entity ` set atlantis_emissions"
    by (simp add: atlantis_emissions_def)
  have h2: "\<forall>r\<in>set atlantis_emissions.
      Entity r = ''Atlantis'' \<longrightarrow> (\<exists>s. Year r = Some s \<and> int_literal s = None)"
    by (simp add: atlantis_emissions_def int_literal_na)
  from C10_listed_without_data [OF h1 h2, where py_float = decimal_literal]
  show ?thesis by simp
qed

text \<open>The readers return a table when no row that they convert lacks a cell.\<close>

lemma lese_energy_returns:
  "\<forall>r\<in>set rows. year r \<noteq> None \<and> population r \<noteq> None \<Longrightarrow>
   \<exists>t. lese_energy py_int rows = Inr t"
  unfolding lese_energy_def
  by (intro for_rows_returns lese_energy_row_returns) blast+

lemma lese_emissionen_returns:
  "\<forall>r\<in>set rows. Entity r \<in> set (as_list cs) \<longrightarrow> Year r \<noteq> None \<and> Annual_CO2 r \<noteq> None \<Longrightarrow>
   \<exists>t. lese_emissionen py_int py_float cs rows = Inr t"
  unfolding lese_emissionen_def Let_def
  by (intro for_rows_returns lese_emissionen_row_returns) blast

text \<open>
  C9. No table that the readers return has a country twice, and no series in it has a
  year twice. When several rows have the same country and (converted) year, the series
  holds exactly one entry for that year, and its value is the parsed cell of the last
  such row: the row after which no row of the source has that country and year. The
  readers return a table for every source in which no row (of a requested country, for
  the emissions) lacks a cell.
\<close>

theorem C9_last_write_wins:
  "(\<forall>t. lese_energy py_int rows = Inr t \<longrightarrow>
      distinct (map fst t) \<and> (\<forall>s\<in>snd ` set t. distinct (map fst s))) \<and>
   (\<forall>t. lese_emissionen py_int py_float cs rows' = Inr t \<longrightarrow>
      distinct (map fst t) \<and> (\<forall>s\<in>snd ` set t. distinct (map fst s))) \<and>
   (\<forall>t. lese_energy py_int (pre @ r # post) = Inr t \<and>
        Option.bind (year r) py_int = Some y \<and>
        (\<forall>r'\<in>set post. \<not> (country r' = country r \<and>
            Option.bind (year r') py_int = Some y)) \<longrightarrow>
      (\<exists>s p. parse_int py_int (population r) = Inr p \<and> map_of t (country r) = Some s \<and>
             filter (\<lambda>e. fst e = y) s = [(y, p)])) \<and>
   (\<forall>t. lese_emissionen py_int py_float cs (pre' @ q # post') = Inr t \<and>
        Entity q \<in> set (as_list cs) \<and> Option.bind (Year q) py_int = Some y \<and>
        (\<forall>q'\<in>set post'. \<not> (Entity q' = Entity q \<and>
            Option.bind (Year q') py_int = Some y)) \<longrightarrow>
      (\<exists>s v. parse_float py_float (Annual_CO2 q) = Inr v \<and> map_of t (Entity q) = Some s \<and>
             filter (\<lambda>e. fst e = y) s = [(y, v)])) \<and>
   ((\<forall>r\<in>set rows. year r \<noteq> None \<and> population r \<noteq> None) \<longrightarrow>
      (\<exists>t. lese_energy py_int rows = Inr t)) \<and>
   ((\<forall>q\<in>set rows'. Entity q \<in> set (as_list cs) \<longrightarrow> Year q \<noteq> None \<and> Annual_CO2 q \<noteq> None) \<longrightarrow>
      (\<exists>t. lese_emissionen py_int py_float cs rows' = Inr t))"
proof (intro conjI allI impI)
  fix t assume "lese_energy py_int rows = Inr t"
  then have "wf_table t" by (rule wf_table_lese_energy)
  then show "distinct (map fst t)" and "\<forall>s\<in>snd ` set t. distinct (map fst s)"
    unfolding wf_table_iff by blast+
next
  fix t assume "lese_emissionen py_int py_float cs rows' = Inr t"
  then have "wf_table t" by (rule wf_table_lese_emissionen)
  then show "distinct (map fst t)" and "\<forall>s\<in>snd ` set t. distinct (map fst s)"
    unfolding wf_table_iff by blast+
next
  fix t
  assume a: "lese_energy py_int (pre @ r # post) = Inr t \<and>
        Option.bind (year r) py_int = Some y \<and>
        (\<forall>r'\<in>set post. \<not> (country r' = country r \<and>
            Option.bind (year r') py_int = Some y))"
  then obtain p where p: "parse_int py_int (population r) = Inr p"
    and e: "entry t (country r) y = Some p"
    using entry_lese_energy_last [of py_int pre r post t y] by blast
  from a have "wf_table t" by (blast intro: wf_table_lese_energy)
  from one_entry [OF this e] p
  show "\<exists>s p. parse_int py_int (population r) = Inr p \<and> map_of t (country r) = Some s \<and>
             filter (\<lambda>e. fst e = y) s = [(y, p)]"
    by blast
next
  fix t
  assume a: "lese_emissionen py_int py_float cs (pre' @ q # post') = Inr t \<and>
        Entity q \<in> set (as_list cs) \<and> Option.bind (Year q) py_int = Some y \<and>
        (\<forall>q'\<in>set post'. \<not> (Entity q' = Entity q \<and>
            Option.bind (Year q') py_int = Some y))"
  then obtain v where v: "parse_float py_float (Annual_CO2 q) = Inr v"
    and e: "entry t (Entity q) y = Some v"
    using entry_lese_emissionen_last [of py_int py_float cs pre' q post' t y] by blast
  from a have "wf_table t" by (blast intro: wf_table_lese_emissionen)
  from one_entry [OF this e] v
  show "\<exists>s v. parse_float py_float (Annual_CO2 q) = Inr v \<and> map_of t (Entity q) = Some s \<and>
             filter (\<lambda>e. fst e = y) s = [(y, v)]"
    by blast
next
  assume "\<forall>r\<in>set rows. year r \<noteq> None \<and> population r \<noteq> None"
  then show "\<exists>t. lese_energy py_int rows = Inr t" by (rule lese_energy_returns)
next
  assume "\<forall>q\<in>set rows'. Entity q \<in> set (as_list cs) \<longrightarrow> Year q \<noteq> None \<and> Annual_CO2 q \<noteq> None"
  then show "\<exists>t. lese_emissionen py_int py_float cs rows' = Inr t"
    by (rule lese_emissionen_returns)
qed

text \<open>The tables read from the sources with a repeated year.\<close>

lemma duplicate_lese_energy:
  "lese_energy int_literal duplicate_population = Inr [(''Poland'', [(2019, Some 37800000)])]"
  by (simp add: lese_energy_def duplicate_population_def lese_energy_row_def
      int_literal_2019 parse_int_pop1 parse_int_pop2)

lemma duplicate_lese_emissionen:
  "lese_emissionen int_literal decimal_literal (Many [''Poland'']) duplicate_emissions =
     Inr [(''Poland'', [(2019, Some (17 / 2))])]"
  by (simp add: lese_emissionen_def duplicate_emissions_def lese_emissionen_row_def
      int_literal_2019 parse_float_85 parse_float_blank)

text \<open>The sources \<open>duplicate_population\<close> and \<open>duplicate_emissions\<close> have two rows
  for Poland and 2019 each; the second one is kept.\<close>

theorem C9_witness:
  "(\<exists>t s. lese_energy int_literal duplicate_population = Inr t \<and>
        map_of t ''Poland'' = Some s \<and>
        filter (\<lambda>e. fst e = 2019) s = [(2019, Some 37800000)]) \<and>
   (\<exists>t s. lese_emissionen int_literal decimal_literal (Many [''Poland''])
                  duplicate_emissions = Inr t \<and>
        map_of t ''Poland'' = Some s \<and>
        filter (\<lambda>e. fst e = 2019) s = [(2019, Some (17 / 2))])"
proof -
  let ?r1 = "\<lparr>country = ''Poland'', year = Some ''2019'', population = Some ''38000000''\<rparr>"
  let ?r2 = "\<lparr>country = ''Poland'', year = Some ''2019'', population = Some ''37800000''\<rparr>"
  let ?q1 = "\<lparr>Entity = ''Poland'', Year = Some ''2019'', Annual_CO2 = Some ''''\<rparr>"
  let ?q2 = "\<lparr>Entity = ''Poland'', Year = Some ''2019'', Annual_CO2 = Some ''8.5''\<rparr>"
  note inst = C9_last_write_wins [where py_int = int_literal and py_float = decimal_literal
      and r = ?r2 and pre = "[?r1]" and post = "[]" and y = 2019
      and q = ?q2 and pre' = "[?q1]" and post' = "[]" and cs = "Many [''Poland'']"
      and rows = duplicate_population and rows' = duplicate_emissions]
  have rows: "[?r1] @ ?r2 # [] = duplicate_population" "[?q1] @ ?q2 # [] = duplicate_emissions"
    by (simp_all add: duplicate_population_def duplicate_emissions_def)
  have complete1: "\<forall>r\<in>set duplicate_population. year r \<noteq> None \<and> population r \<noteq> None"
    by (simp add: duplicate_population_def)
  have complete2: "\<forall>q\<in>set duplicate_emissions.
      Entity q \<in> set (as_list (Many [''Poland''])) \<longrightarrow> Year q \<noteq> None \<and> Annual_CO2 q \<noteq> None"
    by (simp add: duplicate_emissions_def)
  from inst complete1 obtain t1 where t1: "lese_energy int_literal duplicate_population = Inr t1"
    by blast
  from inst complete2 obtain t2 where
    t2: "lese_emissionen int_literal decimal_literal (Many [''Poland'']) duplicate_emissions = Inr t2"
    by blast
  have h1: "lese_energy int_literal ([?r1] @ ?r2 # []) = Inr t1 \<and>
      Option.bind (year ?r2) int_literal = Some 2019 \<and>
      (\<forall>r'\<in>set []. \<not> (country r' = country ?r2 \<and>
          Option.bind (year r') int_literal = Some 2019))"
    unfolding rows using t1 by (simp add: int_literal_2019)
  have h2: "lese_emissionen int_literal decimal_literal (Many [''Poland''])
        ([?q1] @ ?q2 # []) = Inr t2 \<and>
      Entity ?q2 \<in> set (as_list (Many [''Poland''])) \<and>
      Option.bind (Year ?q2) int_literal = Some 2019 \<and>
      (\<forall>q'\<in>set []. \<not> (Entity q' = Entity ?q2 \<and>
          Option.bind (Year q') int_literal = Some 2019))"
    unfolding rows using t2 by (simp add: int_literal_2019)
  from inst h1
  have "\<exists>s p. parse_int int_literal (population ?r2) = Inr p \<and>
      map_of t1 (country ?r2) = Some s \<and> filter (\<lambda>e. fst e = 2019) s = [(2019, p)]"
    by blast
  then have e1: "\<exists>s. map_of t1 ''Poland'' = Some s \<and>
      filter (\<lambda>e. fst e = 2019) s = [(2019, Some 37800000)]"
    by (auto simp: parse_int_pop2)
  from inst h2
  have "\<exists>s v. parse_float decimal_literal (Annual_CO2 ?q2) = Inr v \<and>
      map_of t2 (Entity ?q2) = Some s \<and> filter (\<lambda>e. fst e = 2019) s = [(2019, v)]"
    by blast
  then have e2: "\<exists>s. map_of t2 ''Poland'' = Some s \<and>
      filter (\<lambda>e. fst e = 2019) s = [(2019, Some (17 / 2))]"
    by (auto simp: parse_float_85)
  from t1 e1 t2 e2 show ?thesis by blast
qed

text \<open>Cells that are strings are absorbed: a row whose year string does not convert is
  skipped, so that the read is the read of the source without that row, and a value
  string that is blank after stripping or does not convert is recorded as \<^verbatim>\<open>None\<close>
  for the country and year of its row.\<close>

lemma lese_energy_skip_row:
  "year r = Some s \<Longrightarrow> py_int s = None \<Longrightarrow>
   lese_energy py_int (pre @ r # post) = lese_energy py_int (pre @ post)"
  unfolding lese_energy_def by (rule for_rows_skip) (simp add: lese_energy_row_skip)

lemma lese_emissionen_skip_row:
  "Year r = Some s \<Longrightarrow> py_int s = None \<Longrightarrow>
   lese_emissionen py_int py_float cs (pre @ r # post) =
   lese_emissionen py_int py_float cs (pre @ post)"
  unfolding lese_emissionen_def Let_def
  by (rule for_rows_skip) (simp add: lese_emissionen_row_skip)

lemma malformed_string_cells:
  "(year r = Some s \<and> py_int s = None \<longrightarrow>
      lese_energy py_int (pre @ r # post) = lese_energy py_int (pre @ post)) \<and>
   (Year q = Some s' \<and> py_int s' = None \<longrightarrow>
      lese_emissionen py_int py_float cs (pre' @ q # post') =
      lese_emissionen py_int py_float cs (pre' @ post')) \<and>
   (\<forall>t. lese_energy py_int (pre @ [r]) = Inr t \<and>
        Option.bind (year r) py_int = Some y \<and> population r = Some v \<and>
        (strip v = [] \<or> py_int (strip v) = None) \<longrightarrow>
      entry t (country r) y = Some None) \<and>
   (\<forall>t. lese_emissionen py_int py_float cs (pre' @ [q]) = Inr t \<and>
        Entity q \<in> set (as_list cs) \<and>
        Option.bind (Year q) py_int = Some y \<and> Annual_CO2 q = Some v' \<and>
        (strip v' = [] \<or> py_float (strip v') = None) \<longrightarrow>
      entry t (Entity q) y = Some None)"
proof (intro conjI allI impI)
  show "lese_energy py_int (pre @ r # post) = lese_energy py_int (pre @ post)"
    if "year r = Some s \<and> py_int s = None"
    using that by (blast intro: lese_energy_skip_row)
  show "lese_emissionen py_int py_float cs (pre' @ q # post') =
      lese_emissionen py_int py_float cs (pre' @ post')"
    if "Year q = Some s' \<and> py_int s' = None"
    using that by (blast intro: lese_emissionen_skip_row)
  show "entry t (country r) y = Some None"
    if a: "lese_energy py_int (pre @ [r]) = Inr t \<and>
        Option.bind (year r) py_int = Some y \<and> population r = Some v \<and>
        (strip v = [] \<or> py_int (strip v) = None)" for t
  proof -
    from a have "parse_int py_int (population r) = Inr None"
      by (simp add: parse_int_None)
    moreover from a
    obtain p where "parse_int py_int (population r) = Inr p" "entry t (country r) y = Some p"
      using entry_lese_energy_last [of py_int pre r "[]" t y] by auto
    ultimately show ?thesis by simp
  qed
  show "entry t (Entity q) y = Some None"
    if a: "lese_emissionen py_int py_float cs (pre' @ [q]) = Inr t \<and>
        Entity q \<in> set (as_list cs) \<and>
        Option.bind (Year q) py_int = Some y \<and> Annual_CO2 q = Some v' \<and>
        (strip v' = [] \<or> py_float (strip v') = None)" for t
  proof -
    from a have "parse_float py_float (Annual_CO2 q) = Inr None"
      by (simp add: parse_float_None)
    moreover from a
    obtain x where "parse_float py_float (Annual_CO2 q) = Inr x" "entry t (Entity q) y = Some x"
      using entry_lese_emissionen_last [of py_int py_float cs pre' q "[]" t y] by auto
    ultimately show ?thesis by simp
  qed
qed

text \<open>A cell that is missing from a short line is \<^verbatim>\<open>None\<close>, which has no \<^verbatim>\<open>strip\<close>.\<close>

lemma parse_int_missing: "parse_int py_int None = Inl AttributeError"
  by (simp add: parse_int_def)

text \<open>
  C8. A malformed cell is said never to raise or abort the read. The readers catch
  \<^verbatim>\<open>ValueError\<close> only. For the line \<^verbatim>\<open>Poland,2021\<close> at the end of the scenario's
  population source, \<^verbatim>\<open>csv.DictReader\<close> yields \<^verbatim>\<open>None\<close> as the population cell, and
  \<^verbatim>\<open>None.strip()\<close> in \<^verbatim>\<open>_parse_int\<close> raises \<^verbatim>\<open>AttributeError\<close>; for the line
  \<^verbatim>\<open>Poland\<close> at the end of the emissions source the year cell is \<^verbatim>\<open>None\<close>, and
  \<^verbatim>\<open>int(None)\<close> raises \<^verbatim>\<open>TypeError\<close>. Either read returns a table without that
  line and is aborted with it.
\<close>

theorem C8_short_line_aborts:
  "lese_energy int_literal scenario_population =
     Inr [(''Poland'', [(2019, Some 38000000), (2020, Some 37800000)])] \<and>
   lese_energy int_literal (scenario_population @ [short_population]) = Inl AttributeError \<and>
   lese_emissionen int_literal decimal_literal (Many [''Poland'']) scenario_emissions =
     Inr [(''Poland'', [(2019, Some (17 / 2)), (2020, None)])] \<and>
   lese_emissionen int_literal decimal_literal (Many [''Poland''])
     (scenario_emissions @ [short_emissions]) = Inl TypeError"
proof (intro conjI)
  show "lese_energy int_literal scenario_population =
     Inr [(''Poland'', [(2019, Some 38000000), (2020, Some 37800000)])]"
    by (rule scenario_lese_energy)
  show "lese_emissionen int_literal decimal_literal (Many [''Poland'']) scenario_emissions =
     Inr [(''Poland'', [(2019, Some (17 / 2)), (2020, None)])]"
    by (rule scenario_lese_emissionen)
  show "lese_energy int_literal (scenario_population @ [short_population]) = Inl AttributeError"
    using scenario_lese_energy
    by (simp add: lese_energy_def for_rows_append lese_energy_row_def short_population_def
        int_literal_2021 parse_int_missing)
  show "lese_emissionen int_literal decimal_literal (Many [''Poland''])
     (scenario_emissions @ [short_emissions]) = Inl TypeError"
    using scenario_lese_emissionen
    by (simp add: lese_emissionen_def for_rows_append lese_emissionen_row_def
        short_emissions_def)
qed

subsection \<open>A population beyond the range of a float\<close>

text \<open>The literal of a 1 followed by 400 zeros is the integer \<open>10 ^ 400\<close>, which
  \<^verbatim>\<open>int\<close> returns and which the product with a float refuses.\<close>

lemma digits_zeros: "digits acc (replicate n CHR ''0'') = Some (acc * 10 ^ n)"
  by (induction n arbitrary: acc) (simp_all add: digit_simps)

lemma int_literal_huge:
  "int_literal (CHR ''1'' # replicate 400 CHR ''0'') = Some (10 ^ 400)"
proof -
  have "strip (CHR ''1'' # replicate 400 CHR ''0'') = CHR ''1'' # replicate 400 CHR ''0''"
    by (rule strip_no_space) (simp_all add: isspace_simps)
  then show ?thesis
    by (simp add: int_literal_def digit_simps digits_zeros)
qed

lemma huge_lese_energy:
  "lese_energy int_literal huge_population = Inr [(''Poland'', [(2019, Some (10 ^ 400))])]"
proof -
  have "strip (CHR ''1'' # replicate 400 CHR ''0'') = CHR ''1'' # replicate 400 CHR ''0''"
    by (rule strip_no_space) (simp_all add: isspace_simps)
  then have "parse_int int_literal (Some (CHR ''1'' # replicate 400 CHR ''0'')) =
      Inr (Some (10 ^ 400))"
    by (simp add: parse_int_def int_literal_huge)
  then show ?thesis
    by (simp add: lese_energy_def huge_population_def lese_energy_row_def int_literal_2019)
qed

lemma float_times_int_huge: "float_times_int e (10 ^ 400) = Inl OverflowError"
proof -
  have "(2 :: int) ^ 1024 \<le> 16 ^ 256" by simp
  also have "\<dots> \<le> 10 ^ 400" by simp
  finally have "(2 :: int) ^ 1024 - 2 ^ 970 \<le> \<bar>10 ^ 400\<bar>" by simp
  then show ?thesis by (simp only: float_times_int_def if_True)
qed

lemma float_times_int_scenario: "float_times_int (17 / 2) 38000000 = Inr 323000000"
  by (simp add: float_times_int_def)

section \<open>Properties of the charts\<close>

subsection \<open>The loops in closed form\<close>

text \<open>The years of a line are keys of the series, so no \<^verbatim>\<open>series[year]\<close> raises, and
  the per-capita chart and the chart of the yearly changes always return: each is the
  concatenation of the lines of the selected countries that are keys of the table.\<close>

lemma traverse_map:
  "(\<And>x. x \<in> set xs \<Longrightarrow> f x = Inr (g x)) \<Longrightarrow> traverse f xs = Inr (map g xs)"
  by (induction xs) simp_all

lemma getitem_key: "k \<in> fst ` set d \<Longrightarrow> getitem d k = Inr (dict_get d k)"
  by (auto simp: getitem_def dict_get_def key_iff split: option.splits)

lemma traverse_getitem_keys:
  "traverse (getitem s) (sort (map fst s)) = Inr (map (dict_get s) (sort (map fst s)))"
  by (rule traverse_map) (simp add: getitem_key)

lemma per_capita_line_eq:
  "per_capita_line c col s =
     Inr \<lparr>label = c, color = col, line_x = sort (map fst s),
          line_y = map (dict_get s) (sort (map fst s))\<rparr>"
  by (simp add: per_capita_line_def traverse_getitem_keys Let_def)

lemma traverse_coerce_keys:
  "traverse (\<lambda>year. case getitem s year of Inl e \<Rightarrow> Inl e
                    | Inr v \<Rightarrow> Inr (case v of Some x \<Rightarrow> x | None \<Rightarrow> 0))
     (sort (map fst s)) =
   Inr (map (\<lambda>year. case dict_get s year of Some x \<Rightarrow> x | None \<Rightarrow> 0) (sort (map fst s)))"
  by (rule traverse_map) (simp add: getitem_key)

lemma changes_line_eq:
  "changes_line c col s =
     Inr \<lparr>label = c, color = col, line_x = drop 1 (sort (map fst s)),
          line_y = map (\<lambda>i. (case dict_get s (sort (map fst s) ! i) of Some x \<Rightarrow> x | None \<Rightarrow> 0) -
                            (case dict_get s (sort (map fst s) ! (i - 1)) of Some x \<Rightarrow> x | None \<Rightarrow> 0))
                     [1..<length s]\<rparr>"
  by (auto simp: changes_line_def traverse_coerce_keys Let_def)

lemma plot_co2_emission_per_capita_eq:
  "plot_co2_emission_per_capita co2_data cc =
     Inr (concat (map (\<lambda>(c, col). case map_of co2_data c of
                                      None \<Rightarrow> []
                                    | Some s \<Rightarrow> [\<lparr>label = c, color = col,
                                                  line_x = sort (map fst s),
                                                  line_y = map (dict_get s) (sort (map fst s))\<rparr>])
                    cc))"
  by (induction cc) (auto simp: per_capita_line_eq split: option.splits)

lemma plot_co2_emission_changes_eq:
  "plot_co2_emission_changes co2_data cc =
     Inr (concat (map (\<lambda>(c, col). case map_of co2_data c of
                                      None \<Rightarrow> []
                                    | Some s \<Rightarrow> [\<lparr>label = c, color = col,
          line_x = drop 1 (sort (map fst s)),
          line_y = map (\<lambda>i. (case dict_get s (sort (map fst s) ! i) of Some x \<Rightarrow> x | None \<Rightarrow> 0) -
                            (case dict_get s (sort (map fst s) ! (i - 1)) of Some x \<Rightarrow> x | None \<Rightarrow> 0))
                     [1..<length s]\<rparr>])
                    cc),
          map fst (filter (\<lambda>(c, col). map_of co2_data c = None) cc))"
  by (induction cc) (auto simp: changes_line_eq split: option.splits)

text \<open>The years of a line of the absolute chart are the common keys.\<close>

lemma years_intersection:
  "sorted_list_of_set (set xs \<inter> set ys) = sort (remdups (filter (\<lambda>x. x \<in> set ys) xs))"
proof -
  have "set xs \<inter> set ys = set (filter (\<lambda>x. x \<in> set ys) xs)" by auto
  then show ?thesis by (simp only: sorted_list_of_set_sort_remdups)
qed

subsection \<open>The second difference of a series without absent values\<close>

text \<open>When every value of the series is present, the loop body of
  \<^verbatim>\<open>plot_co2_emission_change_change\<close> returns the line over the sorted years without
  the first two, whose value at the year with index \<open>i + 1\<close> is
  \<open>(v[i+1] - v[i]) - (v[i] - v[i-1])\<close>.\<close>

lemma upt_1_2: "[1..<2] = [1]"
  by (simp add: upt_rec)

lemma upt_1_3: "[1..<3] = [1, 2]"
  by (simp add: upt_rec)

lemma traverse_py_minus:
  "traverse (\<lambda>i. py_minus (map Some vals ! i) (map Some vals ! (i - 1))) [1..<length vals] =
   Inr (map (\<lambda>i. vals ! i - vals ! (i - 1)) [1..<length vals])"
proof (rule traverse_map)
  fix i assume "i \<in> set [1..<length vals]"
  then have "i < length vals" and "i - 1 < length vals" by auto
  then show "py_minus (map Some vals ! i) (map Some vals ! (i - 1)) =
      Inr (vals ! i - vals ! (i - 1))"
    by simp
qed

lemma second_differences:
  "map (\<lambda>i. map (\<lambda>i. vals ! i - vals ! (i - 1)) [1..<length vals] ! i -
            map (\<lambda>i. vals ! i - vals ! (i - 1)) [1..<length vals] ! (i - 1))
     [1..<length vals - 1] =
   map (\<lambda>i. (vals ! (i + 1) - vals ! i) - (vals ! i - vals ! (i - 1))) [1..<length vals - 1]"
proof (rule map_cong [OF refl])
  fix i assume "i \<in> set [1..<length vals - 1]"
  then have i: "1 \<le> i" "i < length vals - 1" by auto
  then have "i < length [1..<length vals]" "i - 1 < length [1..<length vals]" by auto
  moreover from i have "[1..<length vals] ! i = i + 1" "[1..<length vals] ! (i - 1) = i"
    by auto
  ultimately show "map (\<lambda>i. vals ! i - vals ! (i - 1)) [1..<length vals] ! i -
            map (\<lambda>i. vals ! i - vals ! (i - 1)) [1..<length vals] ! (i - 1) =
            (vals ! (i + 1) - vals ! i) - (vals ! i - vals ! (i - 1))"
    by (simp only: nth_map add_diff_cancel_right')
qed

lemma change_change_line_present:
  assumes "map (dict_get s) (sort (map fst s)) = map Some vals"
  shows "change_change_line c col s =
     Inr \<lparr>label = c, color = col, line_x = drop 2 (sort (map fst s)),
          line_y = map (\<lambda>i. (vals ! (i + 1) - vals ! i) - (vals ! i - vals ! (i - 1)))
                     [1..<length vals - 1]\<rparr>"
proof -
  have emissions: "traverse (getitem s) (sort (map fst s)) = Inr (map Some vals)"
    by (simp only: traverse_getitem_keys assms)
  have first: "traverse (\<lambda>i. py_minus (map Some vals ! i) (map Some vals ! (i - 1)))
      [1..<length (map Some vals)] = Inr (map (\<lambda>i. vals ! i - vals ! (i - 1)) [1..<length vals])"
    by (simp only: length_map traverse_py_minus)
  have len: "length (map (\<lambda>i. vals ! i - vals ! (i - 1)) [1..<length vals]) = length vals - 1"
    by simp
  show ?thesis
    unfolding change_change_line_def Let_def emissions sum.case first len second_differences
    by (rule refl)
qed

text \<open>
  C4. For every selected country that is a key of the emissions table, the chart of the
  yearly changes returns and has a line for the country, as the per-capita chart has.
  The per-capita line runs over the years of the series sorted ascending and holds the
  stored values. The line of the changes runs over the same years without the first
  one; its value at the \<open>i\<close>-th year, \<open>i \<ge> 1\<close>, is the per-capita value there minus the
  per-capita value at the year before, with 0 taken for an absent value on either side;
  it has as many values as years, and one value fewer than the per-capita line when
  that one has at least two.
\<close>

theorem C4_first_difference:
  assumes "(c, col) \<in> set countries_colors" and "map_of co2_data c = Some series"
  shows "\<exists>ax warnings pc l p.
     plot_co2_emission_changes co2_data countries_colors = Inr (ax, warnings) \<and>
     plot_co2_emission_per_capita co2_data countries_colors = Inr pc \<and>
     p \<in> set pc \<and> label p = c \<and> color p = col \<and>
     l \<in> set ax \<and> label l = c \<and> color l = col \<and>
     line_x p = sort (map fst series) \<and>
     line_y p = map (dict_get series) (line_x p) \<and>
     line_x l = drop 1 (line_x p) \<and>
     line_y l = map (\<lambda>i. (case line_y p ! i of Some x \<Rightarrow> x | None \<Rightarrow> 0) -
                          (case line_y p ! (i - 1) of Some x \<Rightarrow> x | None \<Rightarrow> 0))
                  [1..<length (line_y p)] \<and>
     length (line_y l) = length (line_x l) \<and>
     (2 \<le> length (line_y p) \<longrightarrow> length (line_y l) + 1 = length (line_y p))"
proof -
  let ?years = "sort (map fst series)"
  let ?p = "\<lparr>label = c, color = col, line_x = ?years,
             line_y = map (dict_get series) ?years\<rparr>"
  let ?l = "\<lparr>label = c, color = col, line_x = drop 1 ?years,
             line_y = map (\<lambda>i. (case dict_get series (?years ! i) of Some x \<Rightarrow> x | None \<Rightarrow> 0) -
                               (case dict_get series (?years ! (i - 1)) of Some x \<Rightarrow> x | None \<Rightarrow> 0))
                        [1..<length series]\<rparr>"
  obtain ax warnings where changes:
    "plot_co2_emission_changes co2_data countries_colors = Inr (ax, warnings)"
    and ax: "ax = concat (map (\<lambda>(c, col). case map_of co2_data c of
                                      None \<Rightarrow> []
                                    | Some s \<Rightarrow> [\<lparr>label = c, color = col,
          line_x = drop 1 (sort (map fst s)),
          line_y = map (\<lambda>i. (case dict_get s (sort (map fst s) ! i) of Some x \<Rightarrow> x | None \<Rightarrow> 0) -
                            (case dict_get s (sort (map fst s) ! (i - 1)) of Some x \<Rightarrow> x | None \<Rightarrow> 0))
                     [1..<length s]\<rparr>])
                    countries_colors)"
    by (simp add: plot_co2_emission_changes_eq)
  obtain pc where per_capita:
    "plot_co2_emission_per_capita co2_data countries_colors = Inr pc"
    and pc: "pc = concat (map (\<lambda>(c, col). case map_of co2_data c of
                                      None \<Rightarrow> []
                                    | Some s \<Rightarrow> [\<lparr>label = c, color = col,
                                                  line_x = sort (map fst s),
                                                  line_y = map (dict_get s) (sort (map fst s))\<rparr>])
                    countries_colors)"
    by (simp add: plot_co2_emission_per_capita_eq)
  have p_in: "?p \<in> set pc"
    unfolding pc using assms by (auto intro!: bexI [of _ "(c, col)"])
  have l_in: "?l \<in> set ax"
    unfolding ax using assms by (auto intro!: bexI [of _ "(c, col)"])
  have diffs: "line_y ?l =
      map (\<lambda>i. (case line_y ?p ! i of Some x \<Rightarrow> x | None \<Rightarrow> 0) -
                (case line_y ?p ! (i - 1) of Some x \<Rightarrow> x | None \<Rightarrow> 0))
        [1..<length (line_y ?p)]"
    by auto
  have "length (line_y ?l) = length (line_x ?l)" by simp
  moreover have "2 \<le> length (line_y ?p) \<longrightarrow> length (line_y ?l) + 1 = length (line_y ?p)"
    by auto
  moreover have "line_x ?p = ?years" "line_y ?p = map (dict_get series) (line_x ?p)"
    "line_x ?l = drop 1 (line_x ?p)" "label ?p = c" "color ?p = col" "label ?l = c" "color ?l = col"
    by simp_all
  ultimately show ?thesis
    using changes per_capita p_in l_in diffs by blast
qed

subsection \<open>The absolute chart\<close>

text \<open>A comprehension that returned has one result per element. The line of a
  country in the absolute chart, when the chart returns, and a condition under which it
  does: every product that is taken is defined.\<close>

lemma traverse_Inr:
  "traverse f xs = Inr ys \<Longrightarrow>
   length ys = length xs \<and> (\<forall>i<length xs. f (xs ! i) = Inr (ys ! i))"
proof (induction xs arbitrary: ys)
  case Nil
  then show ?case by simp
next
  case (Cons x xs)
  from Cons.prems obtain y ys' where y: "f x = Inr y" and ys': "traverse f xs = Inr ys'"
    and ys: "ys = y # ys'"
    by (auto split: sum.splits)
  from Cons.IH [OF ys'] have "length ys' = length xs"
    and "\<forall>i<length xs. f (xs ! i) = Inr (ys' ! i)" by simp_all
  with y ys show ?case by (auto simp: nth_Cons split: nat.splits)
qed

lemma traverse_returns:
  "(\<And>x. x \<in> set xs \<Longrightarrow> \<exists>y. f x = Inr y) \<Longrightarrow> \<exists>ys. traverse f xs = Inr ys"
proof (induction xs)
  case Nil
  then show ?case by simp
next
  case (Cons x xs)
  from Cons.prems [of x] obtain y where "f x = Inr y" by auto
  moreover from Cons.IH Cons.prems obtain ys where "traverse f xs = Inr ys" by auto
  ultimately show ?case by simp
qed

lemma absolut_line_Inr:
  assumes "absolut_line py_mul c col co2 pop = Inr l"
  shows "label l = c \<and> color l = col \<and>
     sorted (line_x l) \<and> distinct (line_x l) \<and>
     set (line_x l) = fst ` set co2 \<inter> fst ` set pop \<and>
     length (line_y l) = length (line_x l) \<and>
     (\<forall>i<length (line_x l).
        (\<forall>e p. map_of co2 (line_x l ! i) = Some (Some e) \<and>
               map_of pop (line_x l ! i) = Some (Some p) \<longrightarrow>
               (\<exists>v. py_mul e p = Inr v \<and> line_y l ! i = Some v)) \<and>
        (map_of co2 (line_x l ! i) = Some None \<or> map_of pop (line_x l ! i) = Some None \<longrightarrow>
               line_y l ! i = None))"
proof -
  let ?years = "sorted_list_of_set (set (map fst co2) \<inter> set (map fst pop))"
  let ?f = "\<lambda>year.
      (let emissions = dict_get co2 year; population = dict_get pop year
       in case (emissions, population) of
            (Some e, Some p) \<Rightarrow>
              (case py_mul e p of Inl err \<Rightarrow> Inl err | Inr v \<Rightarrow> Inr (Some v))
          | _ \<Rightarrow> Inr None)"
  from assms obtain ys where ys: "traverse ?f ?years = Inr ys"
    and l: "l = \<lparr>label = c, color = col, line_x = ?years, line_y = ys\<rparr>"
    by (auto simp: absolut_line_def Let_def split: sum.splits)
  from traverse_Inr [OF ys] have len: "length ys = length ?years"
    and at: "\<And>i. i < length ?years \<Longrightarrow> ?f (?years ! i) = Inr (ys ! i)"
    by simp_all
  have "\<exists>v. py_mul e p = Inr v \<and> ys ! i = Some v"
    if "i < length ?years" and "map_of co2 (?years ! i) = Some (Some e)"
      and "map_of pop (?years ! i) = Some (Some p)" for i e p
    using at [OF that(1)] that(2,3)
    by (auto simp: dict_get_def Let_def split: sum.splits)
  moreover have "ys ! i = None"
    if "i < length ?years"
      and "map_of co2 (?years ! i) = Some None \<or> map_of pop (?years ! i) = Some None" for i
    using at [OF that(1)] that(2)
    by (auto simp: dict_get_def Let_def split: option.splits sum.splits)
  ultimately show ?thesis
    using len by (simp add: l)
qed

lemma absolut_line_returns:
  assumes "\<forall>y e p. map_of co2 y = Some (Some e) \<and> map_of pop y = Some (Some p) \<longrightarrow>
      (\<exists>v. py_mul e p = Inr v)"
  shows "\<exists>l. absolut_line py_mul c col co2 pop = Inr l"
proof -
  let ?years = "sorted_list_of_set (set (map fst co2) \<inter> set (map fst pop))"
  let ?f = "\<lambda>year.
      (let emissions = dict_get co2 year; population = dict_get pop year
       in case (emissions, population) of
            (Some e, Some p) \<Rightarrow>
              (case py_mul e p of Inl err \<Rightarrow> Inl err | Inr v \<Rightarrow> Inr (Some v))
          | _ \<Rightarrow> Inr None)"
  have "\<exists>v. ?f year = Inr v" if "year \<in> set ?years" for year
  proof (cases "dict_get co2 year")
    case None
    then show ?thesis by simp
  next
    case e: (Some e)
    show ?thesis
    proof (cases "dict_get pop year")
      case None
      with e show ?thesis by simp
    next
      case (Some p)
      from that have "year \<in> fst ` set co2" "year \<in> fst ` set pop" by simp_all
      with e Some have "map_of co2 year = Some (Some e)" "map_of pop year = Some (Some p)"
        by (auto simp: dict_get_def key_iff split: option.splits)
      with assms obtain v where "py_mul e p = Inr v" by blast
      with e Some show ?thesis by simp
    qed
  qed
  then obtain ys where "traverse ?f ?years = Inr ys"
    using traverse_returns [of ?years ?f] by blast
  then show ?thesis by (simp add: absolut_line_def Let_def)
qed

lemma plot_absolut_co2_emissions_line:
  "plot_absolut_co2_emissions py_mul co2_data pop_data cc = Inr ax \<Longrightarrow> (c, col) \<in> set cc \<Longrightarrow>
   map_of co2_data c = Some co2 \<Longrightarrow> map_of pop_data c = Some pop \<Longrightarrow>
   \<exists>l. absolut_line py_mul c col co2 pop = Inr l \<and> l \<in> set ax"
  by (induction cc arbitrary: ax) (auto split: option.splits sum.splits)

lemma plot_absolut_co2_emissions_returns:
  "\<forall>(c, col)\<in>set cc. \<forall>co2 pop. map_of co2_data c = Some co2 \<and> map_of pop_data c = Some pop \<longrightarrow>
      (\<exists>l. absolut_line py_mul c col co2 pop = Inr l) \<Longrightarrow>
   \<exists>ax. plot_absolut_co2_emissions py_mul co2_data pop_data cc = Inr ax"
proof (induction cc)
  case Nil
  then show ?case by simp
next
  case (Cons a cc)
  obtain c col where a: "a = (c, col)" by (cases a)
  from Cons obtain ax where
    ax: "plot_absolut_co2_emissions py_mul co2_data pop_data cc = Inr ax"
    by auto
  show ?case
  proof (cases "map_of co2_data c")
    case None
    with a ax show ?thesis by simp
  next
    case co2: (Some co2)
    show ?thesis
    proof (cases "map_of pop_data c")
      case None
      with a ax co2 show ?thesis by simp
    next
      case (Some pop)
      with Cons.prems a co2 obtain l where "absolut_line py_mul c col co2 pop = Inr l"
        by auto
      with a ax co2 Some show ?thesis by simp
    qed
  qed
qed

subsection \<open>The charts of the concrete tables\<close>

text \<open>The scenario's tables, the table with a gap, and a population beyond the range
  of a float.\<close>

lemma scenario_absolut_line:
  "absolut_line float_times_int ''Poland'' ''C0'' [(2019, Some (17 / 2)), (2020, None)]
     [(2019, Some 38000000), (2020, Some 37800000)] =
   Inr \<lparr>label = ''Poland'', color = ''C0'', line_x = [2019, 2020],
        line_y = [Some 323000000, None]\<rparr>"
  by (simp add: absolut_line_def years_intersection dict_get_def float_times_int_scenario)

lemma scenario_per_capita:
  "plot_co2_emission_per_capita [(''Poland'', [(2019, Some (17 / 2 :: rat)), (2020, None)])]
     [(''Poland'', ''C0'')] =
   Inr [\<lparr>label = ''Poland'', color = ''C0'', line_x = [2019, 2020],
         line_y = [Some (17 / 2), None]\<rparr>]"
  by (simp add: plot_co2_emission_per_capita_eq dict_get_def)

lemma scenario_absolut:
  "plot_absolut_co2_emissions float_times_int
     [(''Poland'', [(2019, Some (17 / 2)), (2020, None)])]
     [(''Poland'', [(2019, Some 38000000), (2020, Some 37800000)])]
     [(''Poland'', ''C0'')] =
   Inr [\<lparr>label = ''Poland'', color = ''C0'', line_x = [2019, 2020],
         line_y = [Some 323000000, None]\<rparr>]"
  by (simp add: scenario_absolut_line)

lemma scenario_changes:
  "plot_co2_emission_changes [(''Poland'', [(2019, Some (17 / 2 :: rat)), (2020, None)])]
     [(''Poland'', ''C0'')] =
   Inr ([\<lparr>label = ''Poland'', color = ''C0'', line_x = [2020], line_y = [- (17 / 2)]\<rparr>], [])"
  by (simp add: plot_co2_emission_changes_eq dict_get_def upt_1_2)

lemma gap_change_change:
  "plot_co2_emission_change_change
     [(''Poland'', [(2019, Some (17 / 2 :: rat)), (2020, None), (2021, Some (15 / 2))])]
     [(''Poland'', ''C0'')] = Inl TypeError"
  by (simp add: change_change_line_def getitem_def upt_1_3)

lemma gap_changes:
  "plot_co2_emission_changes
     [(''Poland'', [(2019, Some (17 / 2 :: rat)), (2020, None), (2021, Some (15 / 2))])]
     [(''Poland'', ''C0'')] =
   Inr ([\<lparr>label = ''Poland'', color = ''C0'', line_x = [2020, 2021],
          line_y = [- (17 / 2), 15 / 2]\<rparr>], [])"
  by (simp add: plot_co2_emission_changes_eq dict_get_def upt_1_3)

lemma huge_absolut:
  "plot_absolut_co2_emissions float_times_int
     [(''Poland'', [(2019, Some (17 / 2)), (2020, None)])]
     [(''Poland'', [(2019, Some (10 ^ 400))])]
     [(''Poland'', ''C0'')] = Inl OverflowError"
  by (simp add: absolut_line_def years_intersection dict_get_def float_times_int_huge
      del: power_numeral)

text \<open>\<^verbatim>\<open>main\<close> reads the emissions for the selected countries and draws the charts for
  the same selection. Every requested country is a key of the table that was read, so
  the chart of the yearly changes finds no country to warn about.\<close>

lemma no_warning_in_main:
  assumes "lese_emissionen py_int py_float countries rows = Inr co2_data"
    and "fst ` set countries_colors \<subseteq> set (as_list countries)"
  shows "\<exists>ax. plot_co2_emission_changes co2_data countries_colors = Inr (ax, [])"
proof -
  from assms(1) have "set (map fst co2_data) = set (as_list countries)"
    by (rule keys_lese_emissionen)
  then have keys: "fst ` set co2_data = set (as_list countries)" by simp
  have "\<forall>p\<in>set countries_colors. map_of co2_data (fst p) \<noteq> None"
  proof
    fix p assume "p \<in> set countries_colors"
    with assms(2) keys have "fst p \<in> fst ` set co2_data" by blast
    then show "map_of co2_data (fst p) \<noteq> None" by (rule key_iff [THEN iffD1])
  qed
  then have "filter (\<lambda>(c, col). map_of co2_data c = None) countries_colors = []"
    by (auto simp: filter_empty_conv)
  then show ?thesis
    by (simp add: plot_co2_emission_changes_eq)
qed

text \<open>In the scenario the value for 2020 is absent: the only change is \<open>0 - 8.5\<close>, at
  2020.\<close>

theorem C4_witness:
  "\<exists>t ax warnings l.
     lese_emissionen int_literal decimal_literal (Many [''Poland'']) scenario_emissions = Inr t \<and>
     plot_co2_emission_changes t [(''Poland'', ''C0'')] = Inr (ax, warnings) \<and>
     l \<in> set ax \<and> label l = ''Poland'' \<and> line_x l = [2020] \<and> line_y l = [- (17 / 2)]"
proof -
  let ?t = "[(''Poland'', [(2019 :: int, Some (17 / 2 :: rat)), (2020, None)])]"
  have h1: "(''Poland'', ''C0'') \<in> set [(''Poland'', ''C0'')]" by simp
  have h2: "map_of ?t ''Poland'' = Some [(2019, Some (17 / 2)), (2020, None)]"
    by simp
  from C4_first_difference [OF h1 h2]
  obtain ax warnings l and p :: "rat option line" where
    res: "plot_co2_emission_changes ?t [(''Poland'', ''C0'')] = Inr (ax, warnings)"
    and l: "l \<in> set ax" "label l = ''Poland''"
    and px: "line_x p = sort (map fst [(2019 :: int, Some (17 / 2 :: rat)), (2020, None)])"
    and py: "line_y p = map (dict_get [(2019, Some (17 / 2)), (2020, None)]) (line_x p)"
    and lx: "line_x l = drop 1 (line_x p)"
    and ly: "line_y l = map (\<lambda>i. (case line_y p ! i of Some x \<Rightarrow> x | None \<Rightarrow> 0) -
                          (case line_y p ! (i - 1) of Some x \<Rightarrow> x | None \<Rightarrow> 0))
                  [1..<length (line_y p)]"
    by (elim exE conjE) (rule that, assumption+)
  from px have px': "line_x p = [2019, 2020]" by simp
  from py have py': "line_y p = [Some (17 / 2), None]" by (simp add: px' dict_get_def)
  from lx have "line_x l = [2020]" by (simp add: px')
  moreover from ly have "line_y l = [- (17 / 2)]" by (simp add: py' upt_1_2)
  ultimately show ?thesis using res l scenario_lese_emissionen by blast
qed

text \<open>
  C5, as the specification has it: for every country of both tables the absolute series
  is emitted, with the product at each year where both values are present. A population
  cell of a 1 followed by 400 zeros is read as the integer \<open>10 ^ 400\<close>, which no float
  holds: the product \<^verbatim>\<open>8.5 * population\<close> raises \<^verbatim>\<open>OverflowError\<close> and no series is
  emitted.
\<close>

theorem C5_overflow_counterexample:
  "lese_energy int_literal huge_population = Inr [(''Poland'', [(2019, Some (10 ^ 400))])] \<and>
   lese_emissionen int_literal decimal_literal (Many [''Poland'']) scenario_emissions =
     Inr [(''Poland'', [(2019, Some (17 / 2)), (2020, None)])] \<and>
   plot_absolut_co2_emissions float_times_int
     [(''Poland'', [(2019, Some (17 / 2)), (2020, None)])]
     [(''Poland'', [(2019, Some (10 ^ 400))])]
     [(''Poland'', ''C0'')] = Inl OverflowError"
  using huge_lese_energy scenario_lese_emissionen huge_absolut by (intro conjI)

text \<open>
  C5, as the code has it. For every selected country that is a key of both tables,
  whenever the absolute chart returns it has a line for the country whose years are
  sorted, without duplicates, and exactly the years that are keys of both series: a
  year of only one series is not on the line. The line has a value for each of its
  years: the product \<^verbatim>\<open>emissions * population\<close> of that year when both are stored and
  not absent, and absent when either of them is. The chart returns when that product
  is defined for every pair of present values at a common year of every selected
  country.
\<close>

theorem C5_absolute_series:
  assumes "(c, col) \<in> set countries_colors"
    and "map_of co2_data c = Some co2" and "map_of pop_data c = Some pop"
  shows
  "(\<forall>ax. plot_absolut_co2_emissions py_mul co2_data pop_data countries_colors = Inr ax \<longrightarrow>
      (\<exists>l. l \<in> set ax \<and> label l = c \<and> color l = col \<and>
         sorted (line_x l) \<and> distinct (line_x l) \<and>
         set (line_x l) = fst ` set co2 \<inter> fst ` set pop \<and>
         length (line_y l) = length (line_x l) \<and>
         (\<forall>i<length (line_x l).
            (\<forall>e p. map_of co2 (line_x l ! i) = Some (Some e) \<and>
                   map_of pop (line_x l ! i) = Some (Some p) \<longrightarrow>
                   (\<exists>v. py_mul e p = Inr v \<and> line_y l ! i = Some v)) \<and>
            (map_of co2 (line_x l ! i) = Some None \<or>
             map_of pop (line_x l ! i) = Some None \<longrightarrow>
                   line_y l ! i = None)))) \<and>
   ((\<forall>(c', col')\<in>set countries_colors. \<forall>co2' pop' y e p.
        map_of co2_data c' = Some co2' \<and> map_of pop_data c' = Some pop' \<and>
        map_of co2' y = Some (Some e) \<and> map_of pop' y = Some (Some p) \<longrightarrow>
        (\<exists>v. py_mul e p = Inr v)) \<longrightarrow>
      (\<exists>ax. plot_absolut_co2_emissions py_mul co2_data pop_data countries_colors = Inr ax))"
proof (intro conjI allI impI)
  fix ax
  assume "plot_absolut_co2_emissions py_mul co2_data pop_data countries_colors = Inr ax"
  from plot_absolut_co2_emissions_line [OF this assms]
  obtain l where l: "absolut_line py_mul c col co2 pop = Inr l" and mem: "l \<in> set ax"
    by blast
  from absolut_line_Inr [OF l] mem
  show "\<exists>l. l \<in> set ax \<and> label l = c \<and> color l = col \<and>
         sorted (line_x l) \<and> distinct (line_x l) \<and>
         set (line_x l) = fst ` set co2 \<inter> fst ` set pop \<and>
         length (line_y l) = length (line_x l) \<and>
         (\<forall>i<length (line_x l).
            (\<forall>e p. map_of co2 (line_x l ! i) = Some (Some e) \<and>
                   map_of pop (line_x l ! i) = Some (Some p) \<longrightarrow>
                   (\<exists>v. py_mul e p = Inr v \<and> line_y l ! i = Some v)) \<and>
            (map_of co2 (line_x l ! i) = Some None \<or>
             map_of pop (line_x l ! i) = Some None \<longrightarrow>
                   line_y l ! i = None))"
    by blast
next
  assume defined: "\<forall>(c', col')\<in>set countries_colors. \<forall>co2' pop' y e p.
        map_of co2_data c' = Some co2' \<and> map_of pop_data c' = Some pop' \<and>
        map_of co2' y = Some (Some e) \<and> map_of pop' y = Some (Some p) \<longrightarrow>
        (\<exists>v. py_mul e p = Inr v)"
  show "\<exists>ax. plot_absolut_co2_emissions py_mul co2_data pop_data countries_colors = Inr ax"
  proof (rule plot_absolut_co2_emissions_returns, intro ballI, clarify)
    fix c' col' co2' pop'
    assume "(c', col') \<in> set countries_colors"
      and "map_of co2_data c' = Some co2'" and "map_of pop_data c' = Some pop'"
    with defined have "\<forall>y e p. map_of co2' y = Some (Some e) \<and> map_of pop' y = Some (Some p) \<longrightarrow>
        (\<exists>v. py_mul e p = Inr v)"
      by blast
    then show "\<exists>l. absolut_line py_mul c' col' co2' pop' = Inr l"
      by (rule absolut_line_returns)
  qed
qed

text \<open>In the scenario both years are keys of both series; 2019 gets the product and
  2020, whose emissions are absent, gets an absent value.\<close>

theorem C5_witness:
  "\<exists>ax l. plot_absolut_co2_emissions float_times_int
            [(''Poland'', [(2019, Some (17 / 2)), (2020, None)])]
            [(''Poland'', [(2019, Some 38000000), (2020, Some 37800000)])]
            [(''Poland'', ''C0'')] = Inr ax \<and>
       l \<in> set ax \<and> line_x l = [2019, 2020] \<and>
       line_y l ! 0 = Some 323000000 \<and> line_y l ! 1 = None"
proof -
  let ?co2 = "[(2019 :: int, Some (17 / 2 :: rat)), (2020, None)]"
  let ?pop = "[(2019 :: int, Some (38000000 :: int)), (2020, Some 37800000)]"
  let ?t = "[(''Poland'', ?co2)]"
  let ?p = "[(''Poland'', ?pop)]"
  let ?cc = "[(''Poland'', ''C0'')]"
  have h1: "(''Poland'', ''C0'') \<in> set ?cc" by simp
  have h2: "map_of ?t ''Poland'' = Some ?co2" by simp
  have h3: "map_of ?p ''Poland'' = Some ?pop" by simp
  note inst = C5_absolute_series [OF h1 h2 h3, where py_mul = float_times_int]
  have small: "\<exists>v. float_times_int e 38000000 = Inr v" "\<exists>v. float_times_int e 37800000 = Inr v"
    for e
    by (simp_all add: float_times_int_def)
  have defined: "\<forall>(c', col')\<in>set ?cc. \<forall>co2' pop' y e p.
        map_of ?t c' = Some co2' \<and> map_of ?p c' = Some pop' \<and>
        map_of co2' y = Some (Some e) \<and> map_of pop' y = Some (Some p) \<longrightarrow>
        (\<exists>v. float_times_int e p = Inr v)"
    using small by (auto split: if_splits)
  with inst obtain ax where
    ax: "plot_absolut_co2_emissions float_times_int ?t ?p ?cc = Inr ax"
    by blast
  with inst obtain l where l: "l \<in> set ax"
    and pointwise: "\<forall>i<length (line_x l).
        (\<forall>e p. map_of ?co2 (line_x l ! i) = Some (Some e) \<and>
               map_of ?pop (line_x l ! i) = Some (Some p) \<longrightarrow>
               (\<exists>v. float_times_int e p = Inr v \<and> line_y l ! i = Some v)) \<and>
        (map_of ?co2 (line_x l ! i) = Some None \<or> map_of ?pop (line_x l ! i) = Some None \<longrightarrow>
               line_y l ! i = None)"
    by blast
  from ax l have x: "line_x l = [2019, 2020]"
    unfolding scenario_absolut by auto
  have i0: "0 < length (line_x l)" and i1: "1 < length (line_x l)"
    by (simp_all add: x)
  have at0: "map_of ?co2 (line_x l ! 0) = Some (Some (17 / 2)) \<and>
      map_of ?pop (line_x l ! 0) = Some (Some 38000000)"
    by (simp add: x)
  have at1: "map_of ?co2 (line_x l ! 1) = Some None"
    by (simp add: x)
  from pointwise i0 at0
  have "\<exists>v. float_times_int (17 / 2) 38000000 = Inr v \<and> line_y l ! 0 = Some v"
    by blast
  then have y0: "line_y l ! 0 = Some 323000000"
    by (auto simp: float_times_int_scenario)
  from pointwise i1 at1 have y1: "line_y l ! 1 = None"
    by blast
  from ax l x y0 y1 show ?thesis by blast
qed

text \<open>
  C1. The second-difference chart is said to apply the rule of the first difference,
  which reads an absent value as 0, twice. \<^verbatim>\<open>plot_co2_emission_change_change\<close> takes
  the stored values as they are: on the table read from \<open>gap_emissions\<close>, whose value
  for 2020 is blank, the subtraction \<^verbatim>\<open>None - 8.5\<close> raises \<^verbatim>\<open>TypeError\<close> and the chart
  is not drawn, while \<^verbatim>\<open>plot_co2_emission_changes\<close> on the same table reads the blank
  as 0 and returns the changes \<open>-8.5\<close> and \<open>7.5\<close>.
\<close>

theorem C1_second_difference_raises:
  "lese_emissionen int_literal decimal_literal (Many [''Poland'']) gap_emissions =
     Inr [(''Poland'', [(2019, Some (17 / 2)), (2020, None), (2021, Some (15 / 2))])] \<and>
   plot_co2_emission_change_change
     [(''Poland'', [(2019, Some (17 / 2 :: rat)), (2020, None), (2021, Some (15 / 2))])]
     [(''Poland'', ''C0'')] = Inl TypeError \<and>
   plot_co2_emission_changes
     [(''Poland'', [(2019, Some (17 / 2 :: rat)), (2020, None), (2021, Some (15 / 2))])]
     [(''Poland'', ''C0'')] =
   Inr ([\<lparr>label = ''Poland'', color = ''C0'', line_x = [2020, 2021],
          line_y = [- (17 / 2), 15 / 2]\<rparr>], [])"
  using gap_lese_emissionen gap_change_change gap_changes by (intro conjI)

text \<open>
  C2, as the specification has it: on the scenario the absolute series is the single
  entry for 2019, the year 2020 being dropped. The code does not do that: the line of
  the absolute chart is not the line with the one point for 2019.
\<close>

theorem C2_scenario_absolute_counterexample:
  "lese_emissionen int_literal decimal_literal (Many [''Poland'']) scenario_emissions =
     Inr [(''Poland'', [(2019, Some (17 / 2)), (2020, None)])] \<and>
   lese_energy int_literal scenario_population =
     Inr [(''Poland'', [(2019, Some 38000000), (2020, Some 37800000)])] \<and>
   plot_absolut_co2_emissions float_times_int
     [(''Poland'', [(2019, Some (17 / 2)), (2020, None)])]
     [(''Poland'', [(2019, Some 38000000), (2020, Some 37800000)])]
     [(''Poland'', ''C0'')] \<noteq>
   Inr [\<lparr>label = ''Poland'', color = ''C0'', line_x = [2019], line_y = [Some 323000000]\<rparr>]"
proof (intro conjI)
  show "plot_absolut_co2_emissions float_times_int
     [(''Poland'', [(2019, Some (17 / 2)), (2020, None)])]
     [(''Poland'', [(2019, Some 38000000), (2020, Some 37800000)])]
     [(''Poland'', ''C0'')] \<noteq>
   Inr [\<lparr>label = ''Poland'', color = ''C0'', line_x = [2019], line_y = [Some 323000000]\<rparr>]"
    unfolding scenario_absolut by simp
qed (rule scenario_lese_emissionen scenario_lese_energy)+

text \<open>
  C2, as the code has it. On the tables read from the scenario (8.5 is \<open>17 / 2\<close>) the
  per-capita series is \<open>{2019: 8.5, 2020: absent}\<close>; the absolute series has both
  years, \<open>{2019: 323000000, 2020: absent}\<close>, since 2020 is a key of both series and its
  emissions are absent; and the first-difference series is \<open>{2020: -8.5}\<close>.
\<close>

theorem C2_scenario:
  "lese_emissionen int_literal decimal_literal (Many [''Poland'']) scenario_emissions =
     Inr [(''Poland'', [(2019, Some (17 / 2)), (2020, None)])] \<and>
   lese_energy int_literal scenario_population =
     Inr [(''Poland'', [(2019, Some 38000000), (2020, Some 37800000)])] \<and>
   plot_co2_emission_per_capita [(''Poland'', [(2019, Some (17 / 2 :: rat)), (2020, None)])]
     [(''Poland'', ''C0'')] =
   Inr [\<lparr>label = ''Poland'', color = ''C0'', line_x = [2019, 2020],
         line_y = [Some (17 / 2), None]\<rparr>] \<and>
   plot_absolut_co2_emissions float_times_int
     [(''Poland'', [(2019, Some (17 / 2)), (2020, None)])]
     [(''Poland'', [(2019, Some 38000000), (2020, Some 37800000)])]
     [(''Poland'', ''C0'')] =
   Inr [\<lparr>label = ''Poland'', color = ''C0'', line_x = [2019, 2020],
         line_y = [Some 323000000, None]\<rparr>] \<and>
   plot_co2_emission_changes [(''Poland'', [(2019, Some (17 / 2 :: rat)), (2020, None)])]
     [(''Poland'', ''C0'')] =
   Inr ([\<lparr>label = ''Poland'', color = ''C0'', line_x = [2020], line_y = [- (17 / 2)]\<rparr>], [])"
  using scenario_lese_emissionen scenario_lese_energy scenario_per_capita scenario_absolut
    scenario_changes
  by (intro conjI)

text \<open>
  C3. A selected country without data is said to get an empty series in every chart,
  without an exception, and a warning. Atlantis, requested from the scenario source,
  has no row and is read as a key with the empty series. All four charts return; the
  per-capita, yearly-change and second-difference charts draw a line without points
  for it and the absolute chart none, Atlantis not being in the population table; and
  the chart of the yearly changes, the only one with a warning in it, records none,
  because its warning is for a country that is not a key of the table.
\<close>

theorem C3_no_warning_without_data:
  "lese_emissionen int_literal decimal_literal (Many [''Atlantis'']) scenario_emissions =
     Inr [(''Atlantis'', [])] \<and>
   plot_co2_emission_changes [(''Atlantis'', [] :: rat series)] [(''Atlantis'', ''C0'')] =
     Inr ([\<lparr>label = ''Atlantis'', color = ''C0'', line_x = [], line_y = []\<rparr>], []) \<and>
   plot_co2_emission_per_capita [(''Atlantis'', [] :: rat series)] [(''Atlantis'', ''C0'')] =
     Inr [\<lparr>label = ''Atlantis'', color = ''C0'', line_x = [], line_y = []\<rparr>] \<and>
   plot_co2_emission_change_change [(''Atlantis'', [] :: rat series)] [(''Atlantis'', ''C0'')] =
     Inr [\<lparr>label = ''Atlantis'', color = ''C0'', line_x = [], line_y = []\<rparr>] \<and>
   plot_absolut_co2_emissions float_times_int [(''Atlantis'', [])]
     [(''Poland'', [(2019, Some 38000000), (2020, Some 37800000)])] [(''Atlantis'', ''C0'')] =
     Inr []"
proof (intro conjI)
  show "lese_emissionen int_literal decimal_literal (Many [''Atlantis'']) scenario_emissions =
     Inr [(''Atlantis'', [])]"
    by (rule no_rows_lese_emissionen)
  show "plot_co2_emission_changes [(''Atlantis'', [] :: rat series)] [(''Atlantis'', ''C0'')] =
     Inr ([\<lparr>label = ''Atlantis'', color = ''C0'', line_x = [], line_y = []\<rparr>], [])"
    by (simp add: plot_co2_emission_changes_eq)
  show "plot_co2_emission_per_capita [(''Atlantis'', [] :: rat series)] [(''Atlantis'', ''C0'')] =
     Inr [\<lparr>label = ''Atlantis'', color = ''C0'', line_x = [], line_y = []\<rparr>]"
    by (simp add: plot_co2_emission_per_capita_eq)
  show "plot_co2_emission_change_change [(''Atlantis'', [] :: rat series)]
      [(''Atlantis'', ''C0'')] =
     Inr [\<lparr>label = ''Atlantis'', color = ''C0'', line_x = [], line_y = []\<rparr>]"
    by (simp add: change_change_line_def)
  show "plot_absolut_co2_emissions float_times_int [(''Atlantis'', [])]
     [(''Poland'', [(2019, Some 38000000), (2020, Some 37800000)])] [(''Atlantis'', ''C0'')] =
     Inr []"
    by simp
qed

end
